theory Spec2Isabelle
  imports Main "HOL-Library.Multiset"
begin

section \<open>JavaScript values the offer module relies on\<close>

text \<open>
  The sources are TypeScript; at run time they are JavaScript. Three features of the
  language decide what the handlers below do, and each is written out here:
  truthiness of a nullable string, \<open>String.prototype.endsWith\<close>, and property lookup
  on an object literal (which also finds the members inherited from
  \<open>Object.prototype\<close>).
\<close>

text \<open>A value of type \<open>string | null\<close> is a \<open>string option\<close>. It is truthy when it is
  neither \<open>null\<close> nor the empty string.\<close>

fun truthy :: "string option \<Rightarrow> bool" where
  "truthy None = False"
| "truthy (Some s) = (s \<noteq> [])"

text \<open>\<open>a || b\<close> on nullable strings: the first operand when it is truthy.\<close>

definition or_else :: "string option \<Rightarrow> string \<Rightarrow> string" where
  "or_else a b = (case a of None \<Rightarrow> b | Some s \<Rightarrow> if s = [] then b else s)"

text \<open>\<open>s.endsWith(suf)\<close>: the last \<open>length suf\<close> characters of \<open>s\<close> are \<open>suf\<close>.\<close>

definition endsWith :: "string \<Rightarrow> string \<Rightarrow> bool" where
  "endsWith s suf = (length suf \<le> length s \<and> drop (length s - length suf) s = suf)"

text \<open>What a \<open>throw\<close> carries: an \<open>Error\<close> object with its message, or any other value
  (the handlers only test \<open>error instanceof Error\<close>).\<close>

datatype thrown = ErrorObj string | OtherThrown

text \<open>The names every object literal inherits from \<open>Object.prototype\<close>. Each is bound
  to a function (or, for \<open>__proto__\<close>, to the prototype object), so each is truthy.\<close>

definition objectPrototypeKeys :: "string list" where
  "objectPrototypeKeys =
     [''constructor'', ''hasOwnProperty'', ''isPrototypeOf'', ''propertyIsEnumerable'',
      ''toLocaleString'', ''toString'', ''valueOf'', ''__proto__'',
      ''__defineGetter__'', ''__defineSetter__'', ''__lookupGetter__'', ''__lookupSetter__'']"

text \<open>\<open>table[key]\<close> on an object literal: the own property when the literal has the
  key, else the inherited member when \<open>Object.prototype\<close> has it, else \<open>undefined\<close>.\<close>

datatype 'a property = Own 'a | Inherited | Undefined

definition getProp :: "(string \<times> 'a) list \<Rightarrow> string \<Rightarrow> 'a property" where
  "getProp table key =
     (case map_of table key of
        Some v \<Rightarrow> Own v
      | None \<Rightarrow> if key \<in> set objectPrototypeKeys then Inherited else Undefined)"

section \<open>The data model (services/api/offers.ts)\<close>

text \<open>The \<open>Offer\<close> interface. The field \<open>id\<close> is named \<open>offer_id\<close> here, since \<open>id\<close> is
  HOL's identity function. The four CRM linkage fields are read by the CRM-capable
  detail page and written by the creation page; the interface in the sources predates
  them, so their type is taken from their use (a nullable string).\<close>

record offer =
  offer_id :: string
  company_name :: string
  company_nip :: "string option"
  company_address :: "string option"
  contact_first_name :: "string option"
  contact_last_name :: "string option"
  contact_phone :: "string option"
  contact_email :: "string option"
  title :: string
  valid_until :: "string option"
  description_file_path :: "string option"
  status :: string
  document_path :: "string option"
  ai_generated_content :: "string option"
  created_at :: string
  updated_at :: string
  raynet_company_id :: "string option"
  raynet_contact_id :: "string option"
  raynet_opportunity_id :: "string option"
  crm_opportunity_id :: "string option"

text \<open>A draft offer with every optional field unset, as \<open>createOffer\<close> returns it for
  the payload \<open>{company_name: "Acme", title: "Q1 Proposal"}\<close>; the concrete inputs
  below are built from it.\<close>

definition acme :: offer where
  "acme = \<lparr> offer_id = ''o1'', company_name = ''Acme'', company_nip = None,
      company_address = None, contact_first_name = None, contact_last_name = None,
      contact_phone = None, contact_email = None, title = ''Q1 Proposal'',
      valid_until = None, description_file_path = None, status = ''draft'',
      document_path = None, ai_generated_content = None,
      created_at = ''2024-01-01T00:00:00.000Z'', updated_at = ''2024-01-01T00:00:00.000Z'',
      raynet_company_id = None, raynet_contact_id = None,
      raynet_opportunity_id = None, crm_opportunity_id = None \<rparr>"

section \<open>The offers slice (store/slices/offers.ts)\<close>

record offersState =
  offers :: "offer list"
  currentOffer :: "offer option"
  isLoading :: bool
  error :: "string option"

definition initialState :: offersState where
  "initialState = \<lparr> offers = [], currentOffer = None, isLoading = False, error = None \<rparr>"

text \<open>\<open>Array.prototype.findIndex\<close>: the index of the first element that satisfies the
  predicate, or \<open>-1\<close>.\<close>

fun findIndex :: "('a \<Rightarrow> bool) \<Rightarrow> 'a list \<Rightarrow> int" where
  "findIndex p [] = -1"
| "findIndex p (x # xs) =
     (if p x then 0 else (let i = findIndex p xs in if i = -1 then -1 else i + 1))"

definition setOffers :: "offersState \<Rightarrow> offer list \<Rightarrow> offersState" where
  "setOffers state payload = state\<lparr>offers := payload\<rparr>"

definition setCurrentOffer :: "offersState \<Rightarrow> offer option \<Rightarrow> offersState" where
  "setCurrentOffer state payload = state\<lparr>currentOffer := payload\<rparr>"

definition setLoading :: "offersState \<Rightarrow> bool \<Rightarrow> offersState" where
  "setLoading state payload = state\<lparr>isLoading := payload\<rparr>"

definition setError :: "offersState \<Rightarrow> string option \<Rightarrow> offersState" where
  "setError state payload = state\<lparr>error := payload\<rparr>"

definition removeOffer :: "offersState \<Rightarrow> string \<Rightarrow> offersState" where
  "removeOffer state payload =
     state\<lparr>offers := filter (\<lambda>x. offer_id x \<noteq> payload) (offers state)\<rparr>"

definition updateOfferInList :: "offersState \<Rightarrow> offer \<Rightarrow> offersState" where
  "updateOfferInList state payload =
     (let idx = findIndex (\<lambda>x. offer_id x = offer_id payload) (offers state)
      in if idx \<noteq> -1 then state\<lparr>offers := (offers state)[nat idx := payload]\<rparr>
         else state)"

section \<open>The API client (services/api/offers.ts)\<close>

text \<open>The mirrored CRM rows.\<close>

record crmCompany =
  cc_id :: string
  cc_raynet_id :: string
  cc_name :: string
  cc_nip :: "string option"
  cc_address :: "string option"

record crmContact =
  ct_id :: string
  ct_raynet_id :: string
  ct_first_name :: "string option"
  ct_last_name :: "string option"
  ct_phone :: "string option"
  ct_email :: "string option"

text \<open>An uploaded \<open>File\<close>: its name and its text.\<close>

record jsFile =
  file_name :: string
  file_text :: string

text \<open>A request as \<open>fetch\<close> receives it (the headers come from \<open>getHeader\<close>, which is
  not part of these sources, and are left out), and the part of the response the client
  reads itself, \<open>response.status\<close>.\<close>

datatype httpMethod = GET | POST | PATCH | DELETE

datatype requestBody = NoBody | JsonStatus string | FormDataFile jsFile

record request =
  http_method :: httpMethod
  url :: string
  body :: requestBody

record response =
  http_status :: nat
  payload_text :: string

text \<open>\<open>await fetch(...)\<close> either rejects (\<open>Inl\<close>, a network failure) or resolves to a
  response. The network is a function from requests to such outcomes; every call is
  appended to a log, so that "no network call was made" is a statement about the log.\<close>

type_synonym network = "request \<Rightarrow> thrown + response"

definition doFetch :: "network \<Rightarrow> request \<Rightarrow> request list \<Rightarrow> (thrown + response) \<times> request list" where
  "doFetch fetch rq log = (fetch rq, log @ [rq])"

text \<open>\<open>try { body } catch (error) { handler }\<close> on outcomes.\<close>

definition tryCatch :: "thrown + 'a \<Rightarrow> (thrown \<Rightarrow> thrown + 'a) \<Rightarrow> thrown + 'a" where
  "tryCatch tried handler = (case tried of Inl err \<Rightarrow> handler err | Inr v \<Rightarrow> Inr v)"

text \<open>\<open>ApiResponseHandler.handleResponse\<close> and \<open>handleResponseWithResult\<close> live in
  \<open>api-error-handler.ts\<close>, which is not part of these sources: each API function takes
  the handler as a parameter \<open>handleResponse\<close>, from the response and the fallback message
  to the parsed value or a thrown error. In every API function but \<open>deleteOffer\<close> the
  \<open>catch\<close> block logs and rethrows.\<close>

definition getCompanies ::
  "network \<Rightarrow> (response \<Rightarrow> string \<Rightarrow> thrown + crmCompany list) \<Rightarrow> request list
     \<Rightarrow> (thrown + crmCompany list) \<times> request list" where
  "getCompanies fetch handleResponse log =
     (let (fetched, log') =
            doFetch fetch \<lparr>http_method = GET, url = ''/api/v1/crm/companies'', body = NoBody\<rparr> log
      in (tryCatch
            (case fetched of
               Inl err \<Rightarrow> Inl err
             | Inr response \<Rightarrow>
                 if http_status response = 404 then Inr []
                 else handleResponse response ''Failed to fetch companies'')
            (\<lambda>err. Inl err),
          log'))"

definition getCompanyContacts ::
  "network \<Rightarrow> (response \<Rightarrow> string \<Rightarrow> thrown + crmContact list) \<Rightarrow> string \<Rightarrow> request list
     \<Rightarrow> (thrown + crmContact list) \<times> request list" where
  "getCompanyContacts fetch handleResponse companyId log =
     (let (fetched, log') =
            doFetch fetch \<lparr>http_method = GET,
              url = ''/api/v1/crm/companies/'' @ companyId @ ''/contacts'', body = NoBody\<rparr> log
      in (tryCatch
            (case fetched of
               Inl err \<Rightarrow> Inl err
             | Inr response \<Rightarrow>
                 if http_status response = 404 then Inr []
                 else handleResponse response ''Failed to fetch contacts'')
            (\<lambda>err. Inl err),
          log'))"

definition getOffers ::
  "network \<Rightarrow> (response \<Rightarrow> string \<Rightarrow> thrown + offer list) \<Rightarrow> request list
     \<Rightarrow> (thrown + offer list) \<times> request list" where
  "getOffers fetch handleResponse log =
     (let (fetched, log') =
            doFetch fetch \<lparr>http_method = GET, url = ''/api/v1/offers'', body = NoBody\<rparr> log
      in (tryCatch
            (case fetched of
               Inl err \<Rightarrow> Inl err
             | Inr response \<Rightarrow>
                 if http_status response = 404 then Inr []
                 else handleResponse response ''Failed to fetch offers'')
            (\<lambda>err. Inl err),
          log'))"

definition getOffer ::
  "network \<Rightarrow> (response \<Rightarrow> string \<Rightarrow> thrown + offer) \<Rightarrow> string \<Rightarrow> request list
     \<Rightarrow> (thrown + offer) \<times> request list" where
  "getOffer fetch handleResponse offerId log =
     (let (fetched, log') =
            doFetch fetch \<lparr>http_method = GET, url = ''/api/v1/offers/'' @ offerId, body = NoBody\<rparr> log
      in (tryCatch
            (case fetched of
               Inl err \<Rightarrow> Inl err
             | Inr response \<Rightarrow> handleResponse response ''Offer not found'')
            (\<lambda>err. Inl err),
          log'))"

definition uploadDescription ::
  "network \<Rightarrow> (response \<Rightarrow> string \<Rightarrow> thrown + 'r) \<Rightarrow> string \<Rightarrow> jsFile \<Rightarrow> request list
     \<Rightarrow> (thrown + 'r) \<times> request list" where
  "uploadDescription fetch handleResponse offerId file log =
     (let (fetched, log') =
            doFetch fetch \<lparr>http_method = POST,
              url = ''/api/v1/offers/'' @ offerId @ ''/upload-description'',
              body = FormDataFile file\<rparr> log
      in (tryCatch
            (case fetched of
               Inl err \<Rightarrow> Inl err
             | Inr response \<Rightarrow> handleResponse response ''Failed to upload description'')
            (\<lambda>err. Inl err),
          log'))"

definition generatePdf ::
  "network \<Rightarrow> (response \<Rightarrow> string \<Rightarrow> thrown + offer) \<Rightarrow> string \<Rightarrow> request list
     \<Rightarrow> (thrown + offer) \<times> request list" where
  "generatePdf fetch handleResponse offerId log =
     (let (fetched, log') =
            doFetch fetch \<lparr>http_method = POST,
              url = ''/api/v1/offers/'' @ offerId @ ''/generate-pdf'', body = NoBody\<rparr> log
      in (tryCatch
            (case fetched of
               Inl err \<Rightarrow> Inl err
             | Inr response \<Rightarrow> handleResponse response ''Failed to generate PDF'')
            (\<lambda>err. Inl err),
          log'))"


text \<open>\<open>deleteOffer\<close> is the one API function whose \<open>catch\<close> block returns a value: the
  failure object \<open>{success: false, message}\<close>, with the error's own message when the
  thrown value is an \<open>Error\<close>.\<close>

record deleteResult =
  success :: bool
  message :: "string option"

definition deleteOffer ::
  "network \<Rightarrow> (response \<Rightarrow> string \<Rightarrow> thrown + deleteResult) \<Rightarrow> string \<Rightarrow> request list
     \<Rightarrow> (thrown + deleteResult) \<times> request list" where
  "deleteOffer fetch handleResponseWithResult offerId log =
     (let (fetched, log') =
            doFetch fetch \<lparr>http_method = DELETE, url = ''/api/v1/offers/'' @ offerId, body = NoBody\<rparr> log
      in (tryCatch
            (case fetched of
               Inl err \<Rightarrow> Inl err
             | Inr response \<Rightarrow> handleResponseWithResult response ''Failed to delete offer'')
            (\<lambda>err. Inr \<lparr>success = False,
                           message = Some (case err of ErrorObj m \<Rightarrow> m
                                           | OtherThrown \<Rightarrow> ''Failed to delete offer'')\<rparr>),
          log'))"

definition getDownloadPdfUrl :: "string \<Rightarrow> string" where
  "getDownloadPdfUrl offerId = ''/api/v1/offers/'' @ offerId @ ''/download-pdf''"

section \<open>The offers list page (offers/components/OffersPage.tsx)\<close>

text \<open>Texts are byte strings in UTF-8: the Polish letters of the messages are written
  as their two bytes (\<open>0xC5 0x82\<close> is l with stroke, \<open>0xC4 0x99\<close> e with ogonek,
  \<open>0xC4 0x85\<close> a with ogonek, \<open>0xC4 0x87\<close> c with acute).\<close>

datatype toast = ToastSuccess string | ToastError string

definition msgOfferDeleted :: string where
  "msgOfferDeleted = ''Oferta usuni'' @ [CHR 0xC4, CHR 0x99] @ ''ta''"

definition msgDeleteFailed :: string where
  "msgDeleteFailed = ''Nie uda'' @ [CHR 0xC5, CHR 0x82] @ ''o si'' @ [CHR 0xC4, CHR 0x99]
     @ '' usun'' @ [CHR 0xC4, CHR 0x85, CHR 0xC4, CHR 0x87] @ '' oferty''"

text \<open>The \<open>useState\<close> cells of the page, the toasts shown so far and the log of network
  calls. (\<open>offers\<close> and \<open>isLoading\<close> carry the suffix \<open>_p\<close>: the slice has fields of the
  same names.)\<close>

record offersPage =
  offers_p :: "offer list"
  isLoading_p :: bool
  toasts_p :: "toast list"
  network_p :: "request list"

text \<open>\<open>new Date(s).getTime()\<close> is a library function: it is the parameter \<open>getTime\<close>, with
  \<open>None\<close> for \<open>NaN\<close> (the string is not a date) and \<open>Some ms\<close> for the integral number of
  milliseconds otherwise. The comparator subtracts two such numbers; \<open>NaN\<close> is contagious.
  Time values are integers of magnitude at most \<open>8.64e15\<close>, so the sign of the floating
  point difference is the sign of the integer difference.\<close>

definition byUpdatedAtDesc :: "(string \<Rightarrow> int option) \<Rightarrow> offer \<Rightarrow> offer \<Rightarrow> int option" where
  "byUpdatedAtDesc getTime a b =
     (case (getTime (updated_at b), getTime (updated_at a)) of
        (Some tb, Some ta) \<Rightarrow> Some (tb - ta)
      | _ \<Rightarrow> None)"

text \<open>\<open>Array.prototype.sort(comparator)\<close> is stable, puts \<open>a\<close> after \<open>b\<close> when
  \<open>comparator(a, b) > 0\<close>, and reads a \<open>NaN\<close> result as \<open>0\<close>. For a consistent comparator
  the result is determined by these rules; it is computed here by stable insertion. For
  an inconsistent comparator (three or more offers of which some, not all, have a
  \<open>NaN\<close> time) the order is left to the engine and can differ from the one computed
  here; the properties below use the order only where the comparator is consistent.\<close>

definition positive :: "int option \<Rightarrow> bool" where
  "positive v = (case v of None \<Rightarrow> False | Some n \<Rightarrow> 0 < n)"

fun insertCmp :: "('a \<Rightarrow> 'a \<Rightarrow> int option) \<Rightarrow> 'a \<Rightarrow> 'a list \<Rightarrow> 'a list" where
  "insertCmp cmp x [] = [x]"
| "insertCmp cmp x (y # ys) =
     (if positive (cmp x y) then y # insertCmp cmp x ys else x # y # ys)"

fun sortCmp :: "('a \<Rightarrow> 'a \<Rightarrow> int option) \<Rightarrow> 'a list \<Rightarrow> 'a list" where
  "sortCmp cmp [] = []"
| "sortCmp cmp (x # xs) = insertCmp cmp x (sortCmp cmp xs)"

definition fetchOffers ::
  "(string \<Rightarrow> int option) \<Rightarrow> network \<Rightarrow> (response \<Rightarrow> string \<Rightarrow> thrown + offer list)
     \<Rightarrow> offersPage \<Rightarrow> offersPage" where
  "fetchOffers getTime fetch handleResponse st =
     (let st1 = st\<lparr>isLoading_p := True\<rparr>;
          (res, log') = getOffers fetch handleResponse (network_p st1);
          st2 = st1\<lparr>network_p := log'\<rparr>;
          st3 = (case res of
                   Inr data \<Rightarrow> st2\<lparr>offers_p := sortCmp (byUpdatedAtDesc getTime) data\<rparr>
                 | Inl err \<Rightarrow> st2\<lparr>offers_p := []\<rparr>)
      in st3\<lparr>isLoading_p := False\<rparr>)"

text \<open>\<open>handleDelete\<close> has no \<open>try\<close>: were \<open>deleteOffer\<close> to reject, so would the handler.\<close>

definition handleDelete ::
  "network \<Rightarrow> (response \<Rightarrow> string \<Rightarrow> thrown + deleteResult) \<Rightarrow> offersPage \<Rightarrow> string
     \<Rightarrow> thrown + offersPage" where
  "handleDelete fetch handleResponseWithResult st offerId =
     (let (res, log') = deleteOffer fetch handleResponseWithResult offerId (network_p st);
          st1 = st\<lparr>network_p := log'\<rparr>
      in case res of
           Inl err \<Rightarrow> Inl err
         | Inr result \<Rightarrow>
             Inr (if success result
                  then st1\<lparr>offers_p := filter (\<lambda>x. offer_id x \<noteq> offerId) (offers_p st1),
                           toasts_p := toasts_p st1 @ [ToastSuccess msgOfferDeleted]\<rparr>
                  else st1\<lparr>toasts_p := toasts_p st1 @
                             [ToastError (or_else (message result) msgDeleteFailed)]\<rparr>))"

section \<open>Status tables (OfferCard.tsx and the two detail pages)\<close>

record statusEntry =
  label :: string
  color :: string

text \<open>\<open>STATUS_LABELS\<close> of \<open>OfferCard.tsx\<close> and \<open>OfferDetailPage.tsx\<close> (the same literal in
  both files).\<close>

definition STATUS_LABELS :: "(string \<times> statusEntry) list" where
  "STATUS_LABELS =
     [(''draft'', \<lparr>label = ''Robocza'', color = ''bg-gray-200 text-gray-700''\<rparr>),
      (''generated'', \<lparr>label = ''Wygenerowana'', color = ''bg-blue-100 text-blue-700''\<rparr>),
      (''sent'', \<lparr>label = ''Wys'' @ [CHR 0xC5, CHR 0x82] @ ''ana'',
                  color = ''bg-yellow-100 text-yellow-700''\<rparr>),
      (''accepted'', \<lparr>label = ''Zaakceptowana'', color = ''bg-green-100 text-green-700''\<rparr>),
      (''expired'', \<lparr>label = ''Wygas'' @ [CHR 0xC5, CHR 0x82] @ ''a'',
                     color = ''bg-red-100 text-red-700''\<rparr>)]"

text \<open>\<open>STATUS_LABELS\<close> of the detail page with the CRM push; only the label of \<open>sent\<close>
  differs.\<close>

definition STATUS_LABELS_crm :: "(string \<times> statusEntry) list" where
  "STATUS_LABELS_crm =
     [(''draft'', \<lparr>label = ''Robocza'', color = ''bg-gray-200 text-gray-700''\<rparr>),
      (''generated'', \<lparr>label = ''Wygenerowana'', color = ''bg-blue-100 text-blue-700''\<rparr>),
      (''sent'', \<lparr>label = ''Wys'' @ [CHR 0xC5, CHR 0x82] @ ''ana do CRM'',
                  color = ''bg-yellow-100 text-yellow-700''\<rparr>),
      (''accepted'', \<lparr>label = ''Zaakceptowana'', color = ''bg-green-100 text-green-700''\<rparr>),
      (''expired'', \<lparr>label = ''Wygas'' @ [CHR 0xC5, CHR 0x82] @ ''a'',
                     color = ''bg-red-100 text-red-700''\<rparr>)]"

text \<open>\<open>const statusInfo = STATUS_LABELS[offer.status] || STATUS_LABELS.draft\<close>. An own
  entry is an object and an inherited member is a function or an object: both are
  truthy, so only \<open>undefined\<close> reaches the right operand.\<close>

definition statusInfo :: "(string \<times> statusEntry) list \<Rightarrow> string \<Rightarrow> statusEntry property" where
  "statusInfo table st =
     (case getProp table st of Undefined \<Rightarrow> getProp table ''draft'' | found \<Rightarrow> found)"

text \<open>\<open>statusInfo.label\<close> and \<open>statusInfo.color\<close> as the views render them; \<open>None\<close> is
  \<open>undefined\<close> (an inherited member has neither property).\<close>

definition renderedLabel :: "statusEntry property \<Rightarrow> string option" where
  "renderedLabel info = (case info of Own e \<Rightarrow> Some (label e) | _ \<Rightarrow> None)"

definition renderedColor :: "statusEntry property \<Rightarrow> string option" where
  "renderedColor info = (case info of Own e \<Rightarrow> Some (color e) | _ \<Rightarrow> None)"





section \<open>The offer detail page\<close>

text \<open>The handlers below are those of the detail page with the CRM push (its messages
  are plain ASCII); \<open>handleGeneratePdf\<close>, \<open>handleUploadDescription\<close> and
  \<open>handleStatusChange\<close> of \<open>OfferDetailPage.tsx\<close> are the same code with the messages
  spelled with Polish letters. The state is the \<open>useState\<close> cells, the toasts shown,
  the routes pushed and the log of network calls.\<close>

record detailPage =
  offer_d :: "offer option"
  isLoading_d :: bool
  isGenerating :: bool
  isUploading :: bool
  isSendingToCrm :: bool
  estimatedValue :: string
  toasts_d :: "toast list"
  pushed_d :: "string list"
  network_d :: "request list"

definition fetchOffer ::
  "network \<Rightarrow> (response \<Rightarrow> string \<Rightarrow> thrown + offer) \<Rightarrow> string \<Rightarrow> detailPage \<Rightarrow> detailPage" where
  "fetchOffer fetch handleResponse offerId st =
     (let st1 = st\<lparr>isLoading_d := True\<rparr>;
          (res, log') = getOffer fetch handleResponse offerId (network_d st1);
          st2 = st1\<lparr>network_d := log'\<rparr>;
          st3 = (case res of
                   Inr data \<Rightarrow> st2\<lparr>offer_d := Some data\<rparr>
                 | Inl err \<Rightarrow>
                     st2\<lparr>toasts_d := toasts_d st2 @ [ToastError ''Nie udalo sie zaladowac oferty''],
                         pushed_d := pushed_d st2 @ [''/offers'']\<rparr>)
      in st3\<lparr>isLoading_d := False\<rparr>)"

definition handleGeneratePdf ::
  "network \<Rightarrow> (response \<Rightarrow> string \<Rightarrow> thrown + offer) \<Rightarrow> detailPage \<Rightarrow> detailPage" where
  "handleGeneratePdf fetch handleResponse st =
     (case offer_d st of
        None \<Rightarrow> st
      | Some current \<Rightarrow>
          (let st1 = st\<lparr>isGenerating := True\<rparr>;
               (res, log') = generatePdf fetch handleResponse (offer_id current) (network_d st1);
               st2 = st1\<lparr>network_d := log'\<rparr>;
               st3 = (case res of
                        Inr updated \<Rightarrow>
                          st2\<lparr>offer_d := Some updated,
                              toasts_d := toasts_d st2 @ [ToastSuccess ''PDF wygenerowany pomyslnie'']\<rparr>
                      | Inl err \<Rightarrow>
                          st2\<lparr>toasts_d := toasts_d st2 @
                                [ToastError (case err of ErrorObj m \<Rightarrow> m
                                             | OtherThrown \<Rightarrow> ''Nie udalo sie wygenerowac PDF'')]\<rparr>)
           in st3\<lparr>isGenerating := False\<rparr>))"

text \<open>The file-name test both upload handlers apply.\<close>

definition isValid :: "string \<Rightarrow> bool" where
  "isValid name = (endsWith name ''.txt'' \<or> endsWith name ''.md'')"

text \<open>\<open>handleUploadDescription\<close>; \<open>picked\<close> is \<open>e.target.files?.[0]\<close> and \<open>offerId\<close> the
  route parameter \<open>fetchOffer\<close> closes over. \<open>fetchOffer()\<close> is not awaited; it and
  the \<open>finally\<close> block write different cells, so the state after both is the same in
  either order.\<close>

definition handleUploadDescription ::
  "network \<Rightarrow> (response \<Rightarrow> string \<Rightarrow> thrown + 'r) \<Rightarrow> (response \<Rightarrow> string \<Rightarrow> thrown + offer)
     \<Rightarrow> string \<Rightarrow> jsFile option \<Rightarrow> detailPage \<Rightarrow> detailPage" where
  "handleUploadDescription fetch handleUpload handleResponse offerId picked st =
     (case (picked, offer_d st) of
        (None, _) \<Rightarrow> st
      | (Some file, None) \<Rightarrow> st
      | (Some file, Some current) \<Rightarrow>
          if \<not> isValid (file_name file)
          then st\<lparr>toasts_d := toasts_d st @ [ToastError ''Dozwolone formaty: .txt, .md'']\<rparr>
          else
            (let st1 = st\<lparr>isUploading := True\<rparr>;
                 (res, log') = uploadDescription fetch handleUpload (offer_id current) file
                                 (network_d st1);
                 st2 = st1\<lparr>network_d := log'\<rparr>;
                 st3 = (case res of
                          Inr uploaded \<Rightarrow>
                            fetchOffer fetch handleResponse offerId
                              (st2\<lparr>toasts_d := toasts_d st2 @ [ToastSuccess ''Plik wgrany'']\<rparr>)
                        | Inl err \<Rightarrow>
                            st2\<lparr>toasts_d := toasts_d st2 @ [ToastError ''Nie udalo sie wgrac pliku'']\<rparr>)
             in st3\<lparr>isUploading := False\<rparr>))"

text \<open>A template literal prints \<open>null\<close> as the text \<open>null\<close>.\<close>

definition templateText :: "string option \<Rightarrow> string" where
  "templateText v = (case v of None \<Rightarrow> ''null'' | Some s \<Rightarrow> s)"

text \<open>\<open>handleSendToCrm\<close>. \<open>OffersApi.sendToCrm\<close> and \<open>parseFloat\<close> are not part of these
  sources: both are parameters, \<open>sendToCrm\<close> from the offer id and the payload's
  \<open>estimated_value\<close> (absent when the input field is empty) to the outcome of the call.\<close>

definition handleSendToCrm ::
  "(string \<Rightarrow> 'n option \<Rightarrow> thrown + offer) \<Rightarrow> (string \<Rightarrow> 'n) \<Rightarrow> detailPage \<Rightarrow> detailPage" where
  "handleSendToCrm sendToCrm parseFloat st =
     (case offer_d st of
        None \<Rightarrow> st
      | Some current \<Rightarrow>
          (let st1 = st\<lparr>isSendingToCrm := True\<rparr>;
               estimated_value = (if estimatedValue st1 \<noteq> [] then Some (parseFloat (estimatedValue st1))
                                  else None);
               st3 = (case sendToCrm (offer_id current) estimated_value of
                        Inr updated \<Rightarrow>
                          st1\<lparr>offer_d := Some updated,
                              toasts_d := toasts_d st1 @
                                [ToastSuccess (''Oferta wyslana do CRM. Szansa sprzedazy #'' @
                                   (if truthy (crm_opportunity_id updated)
                                    then templateText (crm_opportunity_id updated)
                                    else templateText (raynet_opportunity_id updated)))]\<rparr>
                      | Inl err \<Rightarrow>
                          st1\<lparr>toasts_d := toasts_d st1 @
                                [ToastError (case err of ErrorObj m \<Rightarrow> m
                                             | OtherThrown \<Rightarrow> ''Nie udalo sie wyslac do CRM'')]\<rparr>)
           in st3\<lparr>isSendingToCrm := False\<rparr>))"


text \<open>The render-time gates: the \<open>disabled\<close> attribute of the generate button,
  \<open>isGenerating || !offer.description_file_path\<close>, and
  \<open>canSendToCrm = offer.status === "generated" && offer.document_path &&
  offer.raynet_company_id\<close>, read for its truthiness.\<close>

definition generateDisabled :: "detailPage \<Rightarrow> offer \<Rightarrow> bool" where
  "generateDisabled st current = (isGenerating st \<or> \<not> truthy (description_file_path current))"

definition canSendToCrm :: "offer \<Rightarrow> bool" where
  "canSendToCrm current =
     (status current = ''generated'' \<and> truthy (document_path current) \<and>
      truthy (raynet_company_id current))"

section \<open>The offer creation page (offers/create/components/CreateOfferPage.tsx)\<close>

text \<open>The cells \<open>handleFileChange\<close> and the submit button read or write (the form's text
  fields are left out: \<open>handleFileChange\<close> touches none of them).\<close>

record createPage =
  descriptionFile :: "jsFile option"
  isSubmitting :: bool
  toasts_c :: "toast list"
  network_c :: "request list"

definition handleFileChange :: "jsFile option \<Rightarrow> createPage \<Rightarrow> createPage" where
  "handleFileChange picked st =
     (case picked of
        None \<Rightarrow> st
      | Some file \<Rightarrow>
          if \<not> isValid (file_name file)
          then st\<lparr>toasts_c := toasts_c st @ [ToastError ''Dozwolone formaty: .txt, .md'']\<rparr>
          else st\<lparr>descriptionFile := Some file\<rparr>)"

section \<open>The offer service, from its specification\<close>

text \<open>The server behind \<open>/api/v1/offers\<close> is not part of these sources; only its client
  is. The three operations the properties below speak about are written from the
  specification's sections 4.2, 4.5, 4.6 and 7. The store maps offer ids to offers; an
  operation returns its result and the store after it.\<close>

text \<open>Modelled from the spec: the error taxonomy of section 7, which the absent server
  raises, with one more error that names the pipeline step that failed (section 4.5:
  a failure in steps 1 to 4 "surfaces a user-facing error describing which step
  failed").\<close>

datatype pipelineStep = ReadFile | CallAi | InjectTemplate | RenderPdf

datatype serviceError =
    NotFound
  | ValidationError
  | PreconditionFailed
  | InvalidTransition
  | UpstreamServiceError
  | StepFailed pipelineStep

type_synonym offerStore = "string \<Rightarrow> offer option"

text \<open>Modelled from the spec: the collaborators of the absent generation pipeline
  (section 4.5), each of which can fail (\<open>None\<close>): reading the stored description, the AI
  service, the HTML template, the PDF renderer.\<close>

record pipeline =
  readDescription :: "string \<Rightarrow> string option"
  callAiService :: "offer \<Rightarrow> string \<Rightarrow> string option"
  injectTemplate :: "offer \<Rightarrow> string \<Rightarrow> string option"
  renderPdf :: "string \<Rightarrow> string option"

text \<open>Modelled from the spec: the server-side handler of
  \<open>POST /api/v1/offers/{id}/generate-pdf\<close> (section 4.5), which is not in the sources.
  It fails with \<open>PreconditionFailed\<close> when no description file is present, runs steps
  1 to 4 in order, reports the step that failed, and persists \<open>ai_generated_content\<close>,
  \<open>document_path\<close> and the status \<open>generated\<close> in one update at step 5.\<close>

definition service_generatePdf ::
  "pipeline \<Rightarrow> offerStore \<Rightarrow> string \<Rightarrow> (serviceError + offer) \<times> offerStore" where
  "service_generatePdf env store offerId =
     (case store offerId of
        None \<Rightarrow> (Inl NotFound, store)
      | Some current \<Rightarrow>
          (case description_file_path current of
             None \<Rightarrow> (Inl PreconditionFailed, store)
           | Some path \<Rightarrow>
               (case readDescription env path of
                  None \<Rightarrow> (Inl (StepFailed ReadFile), store)
                | Some description \<Rightarrow>
                    (case callAiService env current description of
                       None \<Rightarrow> (Inl (StepFailed CallAi), store)
                     | Some fragment \<Rightarrow>
                         (case injectTemplate env current fragment of
                            None \<Rightarrow> (Inl (StepFailed InjectTemplate), store)
                          | Some html \<Rightarrow>
                              (case renderPdf env html of
                                 None \<Rightarrow> (Inl (StepFailed RenderPdf), store)
                               | Some document \<Rightarrow>
                                   (let updated = current\<lparr>ai_generated_content := Some fragment,
                                                           document_path := Some document,
                                                           status := ''generated''\<rparr>
                                    in (Inr updated, store(offerId \<mapsto> updated)))))))))"



text \<open>Modelled from the spec: the server-side handler of
  \<open>POST /api/v1/offers/{id}/send-to-crm\<close> (section 4.6), which is not in the sources.
  Its preconditions are the status \<open>generated\<close>, a \<open>document_path\<close> and a linked CRM
  company id; a violated precondition is the error \<open>PreconditionFailed\<close>. On success
  the CRM (\<open>createOpportunity\<close>, which can fail) yields the opportunity id, which the
  updated offer carries; the offer moves to \<open>sent\<close>.\<close>

definition service_sendToCrm ::
  "(offer \<Rightarrow> 'n option \<Rightarrow> string option) \<Rightarrow> offerStore \<Rightarrow> string \<Rightarrow> 'n option
     \<Rightarrow> (serviceError + offer) \<times> offerStore" where
  "service_sendToCrm createOpportunity store offerId estimate =
     (case store offerId of
        None \<Rightarrow> (Inl NotFound, store)
      | Some current \<Rightarrow>
          if status current \<noteq> ''generated'' \<or> document_path current = None \<or>
             raynet_company_id current = None
          then (Inl PreconditionFailed, store)
          else
            (case createOpportunity current estimate of
               None \<Rightarrow> (Inl UpstreamServiceError, store)
             | Some opportunity \<Rightarrow>
                 (let updated = current\<lparr>raynet_opportunity_id := Some opportunity,
                                         crm_opportunity_id := Some opportunity,
                                         status := ''sent''\<rparr>
                  in (Inr updated, store(offerId \<mapsto> updated)))))"

text \<open>Concrete states of the slice: one stored offer with id \<open>o2\<close>, and a new version
  of that offer.\<close>

definition otherOffer :: offer where
  "otherOffer = acme\<lparr>offer_id := ''o2'', title := ''Q2 Proposal''\<rparr>"

definition renamedOffer :: offer where
  "renamedOffer = otherOffer\<lparr>title := ''Q2 Proposal (rev. 2)''\<rparr>"

definition oneOfferState :: offersState where
  "oneOfferState = initialState\<lparr>offers := [otherOffer]\<rparr>"

text \<open>Concrete environments: a network that answers every request with status 404, a
  network that is down, a response handler that throws whatever it is given, and a list
  page showing one offer.\<close>

definition notFoundNetwork :: network where
  "notFoundNetwork rq = Inr \<lparr>http_status = 404, payload_text = ''Not Found''\<rparr>"

definition offlineNetwork :: network where
  "offlineNetwork rq = Inl (ErrorObj ''Failed to fetch'')"

definition throwingHandler :: "response \<Rightarrow> string \<Rightarrow> thrown + 'a" where
  "throwingHandler response fallback = Inl (ErrorObj fallback)"

definition listPage :: offersPage where
  "listPage = \<lparr>offers_p = [acme], isLoading_p = False, toasts_p = [], network_p = []\<rparr>"

text \<open>The order the list page is meant to show: \<open>a >= b\<close> on two time values, as
  JavaScript compares numbers (false as soon as one side is \<open>NaN\<close>), and a list in
  which every element and its successor are so ordered by \<open>updated_at\<close>.\<close>

definition timeGe :: "int option \<Rightarrow> int option \<Rightarrow> bool" where
  "timeGe a b = (case (a, b) of (Some x, Some y) \<Rightarrow> y \<le> x | _ \<Rightarrow> False)"

fun adjacentDesc :: "(string \<Rightarrow> int option) \<Rightarrow> offer list \<Rightarrow> bool" where
  "adjacentDesc getTime [] = True"
| "adjacentDesc getTime [x] = True"
| "adjacentDesc getTime (x # y # ys) =
     (timeGe (getTime (updated_at x)) (getTime (updated_at y)) \<and> adjacentDesc getTime (y # ys))"

text \<open>Concrete inputs for the list page: \<open>new Date(s).getTime()\<close> on the strings the
  examples use (the two ISO timestamps; the empty string is not a date and gives \<open>NaN\<close>),
  a server that answers 200, a response handler that returns a given value, an offer
  updated a month after \<open>acme\<close>, and an offer whose \<open>updated_at\<close> is the empty string.\<close>

definition sampleClock :: "string \<Rightarrow> int option" where
  "sampleClock s =
     (if s = ''2024-01-01T00:00:00.000Z'' then Some 1704067200000
      else if s = ''2024-02-01T00:00:00.000Z'' then Some 1706745600000
      else None)"

definition okNetwork :: network where
  "okNetwork rq = Inr \<lparr>http_status = 200, payload_text = ''OK''\<rparr>"

definition returning :: "'a \<Rightarrow> response \<Rightarrow> string \<Rightarrow> thrown + 'a" where
  "returning v response fallback = Inr v"

definition laterOffer :: offer where
  "laterOffer = acme\<lparr>offer_id := ''o3'', updated_at := ''2024-02-01T00:00:00.000Z''\<rparr>"

definition undatedOffer :: offer where
  "undatedOffer = acme\<lparr>offer_id := ''o4'', updated_at := []\<rparr>"

text \<open>Concrete inputs for the upload handlers: a Markdown file, a PDF file, the creation
  page before anything was picked, a detail page showing \<open>acme\<close>, and the request
  \<open>uploadDescription\<close> sends for an offer id and a file.\<close>

definition descMd :: jsFile where
  "descMd = \<lparr>file_name = ''desc.md'', file_text = ''A short description.''\<rparr>"

definition descPdf :: jsFile where
  "descPdf = \<lparr>file_name = ''desc.pdf'', file_text = ''%PDF-1.7''\<rparr>"

definition blankCreatePage :: createPage where
  "blankCreatePage = \<lparr>descriptionFile = None, isSubmitting = False, toasts_c = [], network_c = []\<rparr>"

definition loadedDetailPage :: detailPage where
  "loadedDetailPage = \<lparr>offer_d = Some acme, isLoading_d = False, isGenerating = False,
      isUploading = False, isSendingToCrm = False, estimatedValue = [], toasts_d = [],
      pushed_d = [], network_d = []\<rparr>"

definition uploadRequest :: "string \<Rightarrow> jsFile \<Rightarrow> request" where
  "uploadRequest offerId file =
     \<lparr>http_method = POST, url = ''/api/v1/offers/'' @ offerId @ ''/upload-description'',
      body = FormDataFile file\<rparr>"


text \<open>Concrete inputs for the service and the detail page: \<open>acme\<close> after the upload of
  its description, after a successful generation (with a linked CRM company), after it
  was sent, after it was accepted (and a detail page showing it), after the CRM push, a
  generated offer without a document, and a generated offer whose \<open>document_path\<close> is
  the empty string; the store
  that holds one offer; a pipeline whose four steps succeed and the four pipelines in
  which one step fails; a CRM that creates opportunity 4711; and a \<open>sendToCrm\<close> call
  that is rejected.\<close>

definition describedOffer :: offer where
  "describedOffer = acme\<lparr>description_file_path := Some ''/uploads/offers/offer_o1.txt''\<rparr>"

definition generatedOffer :: offer where
  "generatedOffer = describedOffer\<lparr>ai_generated_content := Some ''<h2>Zakres</h2>'',
      document_path := Some ''/documents/offer_o1.pdf'', status := ''generated'',
      raynet_company_id := Some ''rc-17''\<rparr>"





definition pushedOffer :: offer where
  "pushedOffer = generatedOffer\<lparr>raynet_opportunity_id := Some ''4711'',
      crm_opportunity_id := Some ''4711'', status := ''sent''\<rparr>"

definition emptyPathOffer :: offer where
  "emptyPathOffer = generatedOffer\<lparr>document_path := Some []\<rparr>"

definition storeOf :: "offer \<Rightarrow> offerStore" where
  "storeOf x = Map.empty(offer_id x \<mapsto> x)"

definition working :: pipeline where
  "working = \<lparr>readDescription = (\<lambda>path. Some ''A short description.''),
      callAiService = (\<lambda>x description. Some ''<h2>Zakres</h2>''),
      injectTemplate = (\<lambda>x fragment. Some (''<html>'' @ fragment @ ''</html>'')),
      renderPdf = (\<lambda>html. Some ''/documents/offer_o1.pdf'')\<rparr>"

definition fileMissing :: pipeline where
  "fileMissing = working\<lparr>readDescription := (\<lambda>path. None)\<rparr>"

definition aiDown :: pipeline where
  "aiDown = working\<lparr>callAiService := (\<lambda>x description. None)\<rparr>"

definition templateBroken :: pipeline where
  "templateBroken = working\<lparr>injectTemplate := (\<lambda>x fragment. None)\<rparr>"

definition rendererDown :: pipeline where
  "rendererDown = working\<lparr>renderPdf := (\<lambda>html. None)\<rparr>"

definition crmUp :: "offer \<Rightarrow> nat option \<Rightarrow> string option" where
  "crmUp x estimate = Some ''4711''"

definition rejectingSendToCrm :: "string \<Rightarrow> nat option \<Rightarrow> thrown + offer" where
  "rejectingSendToCrm offerId estimate = Inl (ErrorObj ''Offer has no linked CRM company'')"

section \<open>Properties of the offers slice\<close>

lemma findIndex_range: "findIndex p xs = -1 \<or> (0 \<le> findIndex p xs \<and> findIndex p xs < int (length xs))"
  by (induction xs) (auto simp: Let_def)

lemma findIndex_none: "(findIndex p xs = -1) = (\<forall>x \<in> set xs. \<not> p x)"
proof (induction xs)
  case Nil
  show ?case by simp
next
  case (Cons x xs)
  have "findIndex p xs = -1 \<or> 0 \<le> findIndex p xs"
    using findIndex_range [of p xs] by auto
  with Cons show ?case by (auto simp: Let_def)
qed

lemma findIndex_first:
  assumes "findIndex p xs \<noteq> -1"
  shows "p (xs ! nat (findIndex p xs)) \<and> (\<forall>j < nat (findIndex p xs). \<not> p (xs ! j))"
  using assms
proof (induction xs)
  case Nil
  then show ?case by simp
next
  case (Cons x xs)
  show ?case
  proof (cases "p x")
    case True
    then show ?thesis by simp
  next
    case False
    with Cons.prems have ne: "findIndex p xs \<noteq> -1"
      by (auto simp: Let_def split: if_splits)
    then have ge: "0 \<le> findIndex p xs"
      using findIndex_range [of p xs] by auto
    from False ne have eq: "findIndex p (x # xs) = findIndex p xs + 1"
      by (simp add: Let_def)
    have n: "nat (findIndex p xs + 1) = Suc (nat (findIndex p xs))"
      using ge by simp
    from Cons.IH [OF ne] False show ?thesis
      unfolding eq n by (auto simp: less_Suc_eq_0_disj)
  qed
qed

lemma updateOfferInList_present:
  assumes "\<exists>x \<in> set (offers state). offer_id x = offer_id payload"
  shows "\<exists>i < length (offers state).
           offer_id (offers state ! i) = offer_id payload \<and>
           (\<forall>j < i. offer_id (offers state ! j) \<noteq> offer_id payload) \<and>
           updateOfferInList state payload = state\<lparr>offers := (offers state)[i := payload]\<rparr>"
proof -
  let ?p = "\<lambda>x. offer_id x = offer_id payload"
  let ?k = "findIndex ?p (offers state)"
  from assms have ne: "?k \<noteq> -1"
    by (simp add: findIndex_none)
  with findIndex_range [of ?p "offers state"]
  have lt: "nat ?k < length (offers state)" by auto
  from findIndex_first [OF ne]
  have first: "?p (offers state ! nat ?k)" "\<forall>j < nat ?k. \<not> ?p (offers state ! j)"
    by blast+
  from ne have "updateOfferInList state payload = state\<lparr>offers := (offers state)[nat ?k := payload]\<rparr>"
    by (simp add: updateOfferInList_def Let_def)
  with lt first show ?thesis by blast
qed

lemma updateOfferInList_absent:
  assumes "\<forall>x \<in> set (offers state). offer_id x \<noteq> offer_id payload"
  shows "updateOfferInList state payload = state"
proof -
  from assms have "findIndex (\<lambda>x. offer_id x = offer_id payload) (offers state) = -1"
    by (simp add: findIndex_none)
  then show ?thesis by (simp add: updateOfferInList_def)
qed

text \<open>
  Claim C6, as the reducers implement it. \<open>removeOffer\<close> keeps exactly the entries whose
  id differs from the payload, in their order, and touches no other field of the state.
  \<open>updateOfferInList\<close> replaces the first entry that has the payload's id by the payload
  and leaves every other position as it was; when no entry has that id it returns the
  state unchanged: it updates, it does not insert.
\<close>

theorem offers_slice_remove_and_update:
  "removeOffer state k = state\<lparr>offers := filter (\<lambda>x. offer_id x \<noteq> k) (offers state)\<rparr> \<and>
   (\<forall>x \<in> set (offers (removeOffer state k)). offer_id x \<noteq> k) \<and>
   ((\<exists>x \<in> set (offers state). offer_id x = offer_id payload) \<longrightarrow>
      (\<exists>i < length (offers state).
         offer_id (offers state ! i) = offer_id payload \<and>
         (\<forall>j < i. offer_id (offers state ! j) \<noteq> offer_id payload) \<and>
         updateOfferInList state payload = state\<lparr>offers := (offers state)[i := payload]\<rparr>)) \<and>
   ((\<forall>x \<in> set (offers state). offer_id x \<noteq> offer_id payload) \<longrightarrow>
      updateOfferInList state payload = state)"
proof (intro conjI impI)
  show "removeOffer state k = state\<lparr>offers := filter (\<lambda>x. offer_id x \<noteq> k) (offers state)\<rparr>"
    by (simp add: removeOffer_def)
  show "\<forall>x \<in> set (offers (removeOffer state k)). offer_id x \<noteq> k"
    by (simp add: removeOffer_def)
next
  assume "\<exists>x \<in> set (offers state). offer_id x = offer_id payload"
  then show "\<exists>i < length (offers state).
         offer_id (offers state ! i) = offer_id payload \<and>
         (\<forall>j < i. offer_id (offers state ! j) \<noteq> offer_id payload) \<and>
         updateOfferInList state payload = state\<lparr>offers := (offers state)[i := payload]\<rparr>"
    by (rule updateOfferInList_present)
next
  assume "\<forall>x \<in> set (offers state). offer_id x \<noteq> offer_id payload"
  then show "updateOfferInList state payload = state"
    by (rule updateOfferInList_absent)
qed

text \<open>The theorem at concrete states: the stored offer \<open>o2\<close> is replaced by its new
  version, a payload with the unknown id \<open>o1\<close> leaves the list as it was, and removing
  \<open>o2\<close> empties the list.\<close>

theorem offers_slice_remove_and_update_witness:
  "offers (updateOfferInList oneOfferState renamedOffer) = [renamedOffer] \<and>
   updateOfferInList oneOfferState acme = oneOfferState \<and>
   offers (removeOffer oneOfferState ''o2'') = []"
proof -
  have present: "\<exists>x \<in> set (offers oneOfferState). offer_id x = offer_id renamedOffer"
    by (simp add: oneOfferState_def initialState_def otherOffer_def renamedOffer_def)
  have absent: "\<forall>x \<in> set (offers oneOfferState). offer_id x \<noteq> offer_id acme"
    by (simp add: oneOfferState_def initialState_def otherOffer_def acme_def)
  from offers_slice_remove_and_update [of oneOfferState "''o2''" renamedOffer] present
  obtain i where i: "i < length (offers oneOfferState)"
    and upd: "updateOfferInList oneOfferState renamedOffer =
                oneOfferState\<lparr>offers := (offers oneOfferState)[i := renamedOffer]\<rparr>"
    by blast
  from i have "i = 0"
    by (simp add: oneOfferState_def initialState_def)
  with upd have a: "offers (updateOfferInList oneOfferState renamedOffer) = [renamedOffer]"
    by (simp add: oneOfferState_def initialState_def)
  from offers_slice_remove_and_update [of oneOfferState "''o2''" acme] absent
  have b: "updateOfferInList oneOfferState acme = oneOfferState"
    by blast
  from offers_slice_remove_and_update [of oneOfferState "''o2''" renamedOffer]
  have "removeOffer oneOfferState ''o2'' =
          oneOfferState\<lparr>offers := filter (\<lambda>x. offer_id x \<noteq> ''o2'') (offers oneOfferState)\<rparr>"
    by blast
  then have c: "offers (removeOffer oneOfferState ''o2'') = []"
    by (simp add: oneOfferState_def initialState_def otherOffer_def)
  from a b c show ?thesis by blast
qed

text \<open>The claim as written (an offer whose id is not in the list is inserted) fails:
  the list holds only \<open>o2\<close>, the payload has id \<open>o1\<close>, and afterwards the list still
  holds only \<open>o2\<close>.\<close>

theorem updateOfferInList_insert_counterexample:
  "map offer_id (offers oneOfferState) = [''o2''] \<and> offer_id acme = ''o1'' \<and>
   map offer_id (offers (updateOfferInList oneOfferState acme)) = [''o2''] \<and>
   acme \<notin> set (offers (updateOfferInList oneOfferState acme))"
  by (simp add: updateOfferInList_def oneOfferState_def initialState_def otherOffer_def
      acme_def Let_def)

section \<open>Properties of the API client\<close>

text \<open>
  Claim C7. When the server answers the request for the mirrored companies, or for the
  contacts of a company, with status 404, \<open>getCompanies\<close> and \<open>getCompanyContacts\<close>
  return the empty list: they do not throw, they do not consult the response handler,
  and the one request they sent is in the log. (The server that reads the mirror is not
  part of these sources; 404 is the answer the client takes for "no rows".)
\<close>

theorem crm_lists_empty_on_404:
  "(fetch \<lparr>http_method = GET, url = ''/api/v1/crm/companies'', body = NoBody\<rparr> = Inr response \<and>
      http_status response = 404 \<longrightarrow>
      getCompanies fetch handleCompanies log =
        (Inr [], log @ [\<lparr>http_method = GET, url = ''/api/v1/crm/companies'', body = NoBody\<rparr>])) \<and>
   (fetch \<lparr>http_method = GET, url = ''/api/v1/crm/companies/'' @ companyId @ ''/contacts'',
           body = NoBody\<rparr> = Inr response' \<and>
      http_status response' = 404 \<longrightarrow>
      getCompanyContacts fetch handleContacts companyId log =
        (Inr [], log @ [\<lparr>http_method = GET,
                         url = ''/api/v1/crm/companies/'' @ companyId @ ''/contacts'',
                         body = NoBody\<rparr>]))"
  by (simp add: getCompanies_def getCompanyContacts_def doFetch_def tryCatch_def)

text \<open>The theorem with a server that answers 404 and a response handler that would
  throw: both lists come back empty.\<close>

theorem crm_lists_empty_on_404_witness:
  "fst (getCompanies notFoundNetwork throwingHandler []) = Inr [] \<and>
   fst (getCompanyContacts notFoundNetwork throwingHandler ''c1'' []) = Inr []"
proof -
  have a: "notFoundNetwork \<lparr>http_method = GET, url = ''/api/v1/crm/companies'', body = NoBody\<rparr>
             = Inr \<lparr>http_status = 404, payload_text = ''Not Found''\<rparr> \<and>
           http_status \<lparr>http_status = 404, payload_text = ''Not Found''\<rparr> = 404"
    by (simp add: notFoundNetwork_def)
  have b: "notFoundNetwork \<lparr>http_method = GET,
               url = ''/api/v1/crm/companies/'' @ ''c1'' @ ''/contacts'', body = NoBody\<rparr>
             = Inr \<lparr>http_status = 404, payload_text = ''Not Found''\<rparr> \<and>
           http_status \<lparr>http_status = 404, payload_text = ''Not Found''\<rparr> = 404"
    by (simp add: notFoundNetwork_def)
  from crm_lists_empty_on_404 [where fetch = notFoundNetwork
      and response = "\<lparr>http_status = 404, payload_text = ''Not Found''\<rparr>"
      and response' = "\<lparr>http_status = 404, payload_text = ''Not Found''\<rparr>"
      and handleCompanies = throwingHandler and handleContacts = throwingHandler
      and log = "[]" and companyId = "''c1''"]
    a b
  show ?thesis by simp
qed

text \<open>
  Claim C10. \<open>getOffers\<close> treats status 404 the same way: when the server answers the
  request for the offers with 404, it returns the empty list without throwing and
  without consulting the response handler.
\<close>

theorem getOffers_empty_on_404:
  "fetch \<lparr>http_method = GET, url = ''/api/v1/offers'', body = NoBody\<rparr> = Inr response \<Longrightarrow>
   http_status response = 404 \<Longrightarrow>
   getOffers fetch handleResponse log =
     (Inr [], log @ [\<lparr>http_method = GET, url = ''/api/v1/offers'', body = NoBody\<rparr>])"
  by (simp add: getOffers_def doFetch_def tryCatch_def)

theorem getOffers_empty_on_404_witness:
  "fst (getOffers notFoundNetwork throwingHandler []) = Inr []"
proof -
  have a: "notFoundNetwork \<lparr>http_method = GET, url = ''/api/v1/offers'', body = NoBody\<rparr>
             = Inr \<lparr>http_status = 404, payload_text = ''Not Found''\<rparr>"
    by (simp add: notFoundNetwork_def)
  have b: "http_status \<lparr>http_status = 404, payload_text = ''Not Found''\<rparr> = 404"
    by simp
  from getOffers_empty_on_404 [where fetch = notFoundNetwork
      and response = "\<lparr>http_status = 404, payload_text = ''Not Found''\<rparr>"
      and handleResponse = throwingHandler and log = "[]"] a b
  show ?thesis by simp
qed

text \<open>
  Claim C5. \<open>deleteOffer\<close> never throws. Whatever the network and the response handler
  do, it returns a result object; when the request or the handler threw, the result is
  \<open>{success: false, message}\<close> with the error's message (or the fallback text for a
  thrown value that is no \<open>Error\<close>), and otherwise it is the handler's result. So
  \<open>handleDelete\<close> always completes, and the list it shows afterwards is the old list
  without the offer when \<open>success\<close> is true, and the old list when it is false.
\<close>

theorem deleteOffer_soft_fail:
  "let rq = \<lparr>http_method = DELETE, url = ''/api/v1/offers/'' @ offerId, body = NoBody\<rparr>;
       tried = (case fetch rq of
                  Inl err \<Rightarrow> Inl err
                | Inr response \<Rightarrow> handleResponseWithResult response ''Failed to delete offer'')
   in \<exists>result.
        fst (deleteOffer fetch handleResponseWithResult offerId log) = Inr result \<and>
        (\<forall>err. tried = Inl err \<longrightarrow>
           result = \<lparr>success = False,
                      message = Some (case err of ErrorObj m \<Rightarrow> m
                                      | OtherThrown \<Rightarrow> ''Failed to delete offer'')\<rparr>) \<and>
        (\<forall>res. tried = Inr res \<longrightarrow> result = res) \<and>
        (\<exists>st'. handleDelete fetch handleResponseWithResult st offerId = Inr st' \<and>
               offers_p st' = (if success result
                               then filter (\<lambda>x. offer_id x \<noteq> offerId) (offers_p st)
                               else offers_p st))"
proof -
  let ?rq = "\<lparr>http_method = DELETE, url = ''/api/v1/offers/'' @ offerId, body = NoBody\<rparr>"
  let ?tried = "case fetch ?rq of
                  Inl err \<Rightarrow> Inl err
                | Inr response \<Rightarrow> handleResponseWithResult response ''Failed to delete offer''"
  show ?thesis
  proof (cases ?tried)
    case (Inl err)
    then show ?thesis
      by (simp add: deleteOffer_def handleDelete_def doFetch_def tryCatch_def Let_def)
  next
    case (Inr res)
    then show ?thesis
      by (simp add: deleteOffer_def handleDelete_def doFetch_def tryCatch_def Let_def)
  qed
qed

text \<open>The theorem with the network down: \<open>deleteOffer\<close> returns the failure object
  carrying the network error's message, and the page still lists the offer.\<close>

theorem deleteOffer_soft_fail_witness:
  "fst (deleteOffer offlineNetwork throwingHandler ''o1'' []) =
     Inr \<lparr>success = False, message = Some ''Failed to fetch''\<rparr> \<and>
   (\<exists>st'. handleDelete offlineNetwork throwingHandler listPage ''o1'' = Inr st' \<and>
          offers_p st' = [acme])"
proof -
  have tried: "(case offlineNetwork \<lparr>http_method = DELETE, url = ''/api/v1/offers/'' @ ''o1'',
                                      body = NoBody\<rparr> of
                  Inl err \<Rightarrow> Inl err
                | Inr response \<Rightarrow> throwingHandler response ''Failed to delete offer'')
               = (Inl (ErrorObj ''Failed to fetch'') :: thrown + deleteResult)"
    by (simp add: offlineNetwork_def)
  from deleteOffer_soft_fail [where offerId = "''o1''" and fetch = offlineNetwork
      and handleResponseWithResult = throwingHandler and log = "[]" and st = listPage]
  obtain result st' where
    r: "fst (deleteOffer offlineNetwork throwingHandler ''o1'' []) = Inr result"
    and f: "\<forall>err. (Inl (ErrorObj ''Failed to fetch'') :: thrown + deleteResult) = Inl err \<longrightarrow>
              result = \<lparr>success = False,
                         message = Some (case err of ErrorObj m \<Rightarrow> m
                                         | OtherThrown \<Rightarrow> ''Failed to delete offer'')\<rparr>"
    and h: "handleDelete offlineNetwork throwingHandler listPage ''o1'' = Inr st'"
    and l: "offers_p st' = (if success result
                            then filter (\<lambda>x. offer_id x \<noteq> ''o1'') (offers_p listPage)
                            else offers_p listPage)"
    unfolding Let_def tried by blast
  from f have res: "result = \<lparr>success = False, message = Some ''Failed to fetch''\<rparr>"
    by simp
  with l have "offers_p st' = [acme]"
    by (simp add: listPage_def)
  with r res h show ?thesis by simp
qed

section \<open>Properties of the offers list page\<close>

lemma mset_insertCmp: "mset (insertCmp cmp x ys) = add_mset x (mset ys)"
  by (induction ys) simp_all

lemma mset_sortCmp: "mset (sortCmp cmp xs) = mset xs"
  by (induction xs) (simp_all add: mset_insertCmp)

lemma set_insertCmp: "set (insertCmp cmp x ys) = insert x (set ys)"
  by (induction ys) auto

lemma set_sortCmp: "set (sortCmp cmp xs) = set xs"
  by (induction xs) (simp_all add: set_insertCmp)

lemma positive_byUpdatedAtDesc:
  assumes "getTime (updated_at a) = Some ta" and "getTime (updated_at b) = Some tb"
  shows "positive (byUpdatedAtDesc getTime a b) = (ta < tb)"
  using assms by (simp add: positive_def byUpdatedAtDesc_def)

lemma sorted_insertCmp:
  assumes "getTime (updated_at x) \<noteq> None"
    and "\<forall>y \<in> set ys. getTime (updated_at y) \<noteq> None"
    and "sorted_wrt (\<lambda>a b. timeGe (getTime (updated_at a)) (getTime (updated_at b))) ys"
  shows "sorted_wrt (\<lambda>a b. timeGe (getTime (updated_at a)) (getTime (updated_at b)))
           (insertCmp (byUpdatedAtDesc getTime) x ys)"
  using assms
proof (induction ys)
  case Nil
  then show ?case by simp
next
  case (Cons y ys)
  from Cons.prems obtain tx ty where tx: "getTime (updated_at x) = Some tx"
    and ty: "getTime (updated_at y) = Some ty"
    by auto
  show ?case
  proof (cases "tx < ty")
    case True
    then have ins: "insertCmp (byUpdatedAtDesc getTime) x (y # ys) =
                      y # insertCmp (byUpdatedAtDesc getTime) x ys"
      by (simp add: positive_byUpdatedAtDesc [OF tx ty])
    from Cons.prems
    have tail: "sorted_wrt (\<lambda>a b. timeGe (getTime (updated_at a)) (getTime (updated_at b)))
                  (insertCmp (byUpdatedAtDesc getTime) x ys)"
      by (intro Cons.IH) simp_all
    from True have "timeGe (getTime (updated_at y)) (getTime (updated_at x))"
      by (simp add: timeGe_def tx ty)
    with Cons.prems tail show ?thesis
      unfolding ins by (simp add: set_insertCmp)
  next
    case False
    then have ins: "insertCmp (byUpdatedAtDesc getTime) x (y # ys) = x # y # ys"
      by (simp add: positive_byUpdatedAtDesc [OF tx ty])
    have "timeGe (getTime (updated_at x)) (getTime (updated_at z))" if "z \<in> set (y # ys)" for z
    proof -
      from that Cons.prems obtain tz where tz: "getTime (updated_at z) = Some tz"
        by auto
      from that Cons.prems(3)
      have "z = y \<or> timeGe (getTime (updated_at y)) (getTime (updated_at z))"
        by auto
      with False tx ty tz show ?thesis
        by (auto simp: timeGe_def)
    qed
    with Cons.prems(3) show ?thesis
      unfolding ins by simp
  qed
qed

lemma sorted_sortCmp:
  assumes "\<forall>y \<in> set xs. getTime (updated_at y) \<noteq> None"
  shows "sorted_wrt (\<lambda>a b. timeGe (getTime (updated_at a)) (getTime (updated_at b)))
           (sortCmp (byUpdatedAtDesc getTime) xs)"
  using assms
proof (induction xs)
  case Nil
  then show ?case by simp
next
  case (Cons x xs)
  then show ?case
    by (simp add: sorted_insertCmp set_sortCmp)
qed

lemma adjacentDesc_sorted_wrt:
  "sorted_wrt (\<lambda>a b. timeGe (getTime (updated_at a)) (getTime (updated_at b))) xs
     \<Longrightarrow> adjacentDesc getTime xs"
  by (induction getTime xs rule: adjacentDesc.induct) simp_all

lemma fetchOffers_offers:
  assumes "fst (getOffers fetch handleResponse (network_p st)) = Inr data"
  shows "offers_p (fetchOffers getTime fetch handleResponse st) =
           sortCmp (byUpdatedAtDesc getTime) data"
  using assms
  by (cases "getOffers fetch handleResponse (network_p st)") (simp add: fetchOffers_def Let_def)

text \<open>
  Claim C8, as the page implements it. When \<open>getOffers\<close> returns a list, the list the
  page shows is a permutation of it; and when every \<open>updated_at\<close> of the list is a date
  (\<open>getTime\<close> gives a number for it), every offer shown has an \<open>updated_at\<close> time greater
  than or equal to that of the offer shown after it.
\<close>

theorem fetchOffers_sorts_by_updated_at:
  assumes "fst (getOffers fetch handleResponse (network_p st)) = Inr data"
  shows "mset (offers_p (fetchOffers getTime fetch handleResponse st)) = mset data \<and>
         ((\<forall>x \<in> set data. getTime (updated_at x) \<noteq> None) \<longrightarrow>
            adjacentDesc getTime (offers_p (fetchOffers getTime fetch handleResponse st)))"
proof -
  have shown: "offers_p (fetchOffers getTime fetch handleResponse st) =
                 sortCmp (byUpdatedAtDesc getTime) data"
    using assms by (rule fetchOffers_offers)
  have "adjacentDesc getTime (sortCmp (byUpdatedAtDesc getTime) data)"
    if "\<forall>x \<in> set data. getTime (updated_at x) \<noteq> None"
    using that by (intro adjacentDesc_sorted_wrt sorted_sortCmp)
  then show ?thesis
    unfolding shown by (simp add: mset_sortCmp)
qed

text \<open>The theorem for a server that returns \<open>acme\<close> (January) before the offer updated
  in February: the page shows the February offer first.\<close>

theorem fetchOffers_sorts_by_updated_at_witness:
  "offers_p (fetchOffers sampleClock okNetwork (returning [acme, laterOffer]) listPage)
     = [laterOffer, acme] \<and>
   mset (offers_p (fetchOffers sampleClock okNetwork (returning [acme, laterOffer]) listPage))
     = mset [acme, laterOffer] \<and>
   adjacentDesc sampleClock
     (offers_p (fetchOffers sampleClock okNetwork (returning [acme, laterOffer]) listPage))"
proof -
  have fetched: "fst (getOffers okNetwork (returning [acme, laterOffer]) (network_p listPage))
                   = Inr [acme, laterOffer]"
    by (simp add: getOffers_def doFetch_def tryCatch_def okNetwork_def returning_def)
  have dated: "\<forall>x \<in> set [acme, laterOffer]. sampleClock (updated_at x) \<noteq> None"
    by (simp add: sampleClock_def acme_def laterOffer_def)
  have shown: "offers_p (fetchOffers sampleClock okNetwork (returning [acme, laterOffer]) listPage)
                 = [laterOffer, acme]"
    by (simp add: fetchOffers_def getOffers_def doFetch_def tryCatch_def okNetwork_def
        returning_def byUpdatedAtDesc_def positive_def sampleClock_def acme_def laterOffer_def)
  from fetchOffers_sorts_by_updated_at [OF fetched, of sampleClock] dated shown
  show ?thesis by blast
qed

text \<open>The claim as written (for every fetched list) fails when an \<open>updated_at\<close> is not a
  date. The comparator then returns \<open>NaN\<close>, which the sort reads as "equal", so the two
  offers stay in the order received; and the time of the first offer shown is \<open>NaN\<close>,
  which is not greater than or equal to anything.\<close>

theorem fetchOffers_undated_counterexample:
  "offers_p (fetchOffers sampleClock okNetwork (returning [undatedOffer, acme]) listPage)
     = [undatedOffer, acme] \<and>
   \<not> adjacentDesc sampleClock
       (offers_p (fetchOffers sampleClock okNetwork (returning [undatedOffer, acme]) listPage))"
proof -
  have shown: "offers_p (fetchOffers sampleClock okNetwork (returning [undatedOffer, acme]) listPage)
                 = [undatedOffer, acme]"
    by (simp add: fetchOffers_def getOffers_def doFetch_def tryCatch_def okNetwork_def
        returning_def byUpdatedAtDesc_def positive_def sampleClock_def acme_def undatedOffer_def)
  have "\<not> adjacentDesc sampleClock [undatedOffer, acme]"
    by (simp add: timeGe_def sampleClock_def undatedOffer_def acme_def)
  with shown show ?thesis by simp
qed

section \<open>Properties of the status tables\<close>

lemma getProp_labels_known:
  "getProp STATUS_LABELS ''draft'' = Own \<lparr>label = ''Robocza'', color = ''bg-gray-200 text-gray-700''\<rparr>"
  by (simp add: getProp_def STATUS_LABELS_def)

lemma statusInfo_own:
  assumes "map_of table st = Some e"
  shows "statusInfo table st = Own e"
  using assms by (simp add: statusInfo_def getProp_def)

lemma statusInfo_fallback:
  assumes "map_of table st = None" and "st \<notin> set objectPrototypeKeys"
  shows "statusInfo table st = getProp table ''draft''"
  using assms by (simp add: statusInfo_def getProp_def)

lemma statusInfo_inherited:
  assumes "map_of table st = None" and "st \<in> set objectPrototypeKeys"
  shows "statusInfo table st = Inherited"
  using assms by (simp add: statusInfo_def getProp_def)

text \<open>
  Claim C9. The lookup \<open>STATUS_LABELS[offer.status] || STATUS_LABELS.draft\<close> returns the
  own entry of each of the five statuses, and the \<open>draft\<close> entry for a status that is
  neither a key of the table nor a name inherited from \<open>Object.prototype\<close> (the three
  lemmas above). For a status that is such a name, \<open>constructor\<close> for one, it returns
  the inherited member instead of the \<open>draft\<close> entry, and the views read an undefined
  label and an undefined color from it.
\<close>

theorem statusInfo_constructor_not_draft:
  "statusInfo STATUS_LABELS ''constructor'' = Inherited \<and>
   statusInfo STATUS_LABELS_crm ''constructor'' = Inherited \<and>
   statusInfo STATUS_LABELS ''constructor'' \<noteq> getProp STATUS_LABELS ''draft'' \<and>
   renderedLabel (statusInfo STATUS_LABELS ''constructor'') = None \<and>
   renderedColor (statusInfo STATUS_LABELS ''constructor'') = None \<and>
   renderedLabel (statusInfo STATUS_LABELS ''archived'') = Some ''Robocza'' \<and>
   renderedLabel (statusInfo STATUS_LABELS ''generated'') = Some ''Wygenerowana''"
  by (simp add: statusInfo_def getProp_def STATUS_LABELS_def STATUS_LABELS_crm_def
      objectPrototypeKeys_def renderedLabel_def renderedColor_def)

section \<open>Properties of the upload handlers\<close>

lemma endsWith_iff: "endsWith s suf = (\<exists>stem. s = stem @ suf)"
proof
  assume "endsWith s suf"
  then have "s = take (length s - length suf) s @ suf"
    by (metis append_take_drop_id endsWith_def)
  then show "\<exists>stem. s = stem @ suf" ..
next
  assume "\<exists>stem. s = stem @ suf"
  then show "endsWith s suf"
    by (auto simp: endsWith_def)
qed

lemma handleUploadDescription_rejects:
  assumes "\<not> isValid (file_name file)"
  shows "network_d (handleUploadDescription fetch handleUpload handleResponse offerId (Some file) st)
           = network_d st"
  using assms by (simp add: handleUploadDescription_def split: option.splits)

lemma handleUploadDescription_rejects_toast:
  assumes "\<not> isValid (file_name file)" and "offer_d st = Some current"
  shows "handleUploadDescription fetch handleUpload handleResponse offerId (Some file) st
           = st\<lparr>toasts_d := toasts_d st @ [ToastError ''Dozwolone formaty: .txt, .md'']\<rparr>"
  using assms by (simp add: handleUploadDescription_def)

lemma network_fetchOffer:
  "network_d (fetchOffer fetch handleResponse offerId st) =
     network_d st @ [\<lparr>http_method = GET, url = ''/api/v1/offers/'' @ offerId, body = NoBody\<rparr>]"
  by (cases "tryCatch (case fetch \<lparr>http_method = GET, url = ''/api/v1/offers/'' @ offerId, body = NoBody\<rparr> of
               Inl err \<Rightarrow> Inl err | Inr response \<Rightarrow> handleResponse response ''Offer not found'') Inl")
     (simp_all add: fetchOffer_def getOffer_def doFetch_def Let_def)

lemma handleUploadDescription_uploads:
  assumes "isValid (file_name file)" and "offer_d st = Some current"
  shows "\<exists>rest. network_d (handleUploadDescription fetch handleUpload handleResponse offerId (Some file) st)
           = network_d st @ [uploadRequest (offer_id current) file] @ rest"
proof (cases "fst (uploadDescription fetch handleUpload (offer_id current) file (network_d st))")
  case (Inl err)
  with assms show ?thesis
    by (simp add: handleUploadDescription_def uploadDescription_def doFetch_def Let_def
        uploadRequest_def split: prod.splits)
next
  case (Inr uploaded)
  with assms show ?thesis
    by (simp add: handleUploadDescription_def uploadDescription_def doFetch_def Let_def
        uploadRequest_def network_fetchOffer split: prod.splits)
qed

text \<open>
  Claim C3, as the handlers implement it. A file name is valid exactly when it is some
  stem followed by \<open>.txt\<close> or by \<open>.md\<close>. For a file whose name is not valid, neither
  handler makes a network call: \<open>handleUploadDescription\<close> leaves the log of requests as
  it was (and, with an offer loaded, changes nothing but the toasts, where it adds the
  error), and \<open>handleFileChange\<close> only adds the error toast and does not store the
  file. For a file whose name is valid, \<open>handleUploadDescription\<close> with an offer loaded
  sends the upload request for that offer and that file as its next request, and
  \<open>handleFileChange\<close> stores the file in \<open>descriptionFile\<close> and does nothing else.
\<close>

theorem upload_handlers_validate_name:
  "isValid (file_name chosen) = (\<exists>stem. file_name chosen = stem @ ''.txt'' \<or> file_name chosen = stem @ ''.md'') \<and>
   (\<not> isValid (file_name chosen) \<longrightarrow>
      network_d (handleUploadDescription fetch handleUpload handleResponse offerId (Some chosen) st)
        = network_d st \<and>
      handleFileChange (Some chosen) c
        = c\<lparr>toasts_c := toasts_c c @ [ToastError ''Dozwolone formaty: .txt, .md'']\<rparr>) \<and>
   (\<not> isValid (file_name chosen) \<and> offer_d st = Some current \<longrightarrow>
      handleUploadDescription fetch handleUpload handleResponse offerId (Some chosen) st
        = st\<lparr>toasts_d := toasts_d st @ [ToastError ''Dozwolone formaty: .txt, .md'']\<rparr>) \<and>
   (isValid (file_name chosen) \<and> offer_d st = Some current \<longrightarrow>
      (\<exists>rest. network_d (handleUploadDescription fetch handleUpload handleResponse offerId (Some chosen) st)
                = network_d st @ [uploadRequest (offer_id current) chosen] @ rest)) \<and>
   (isValid (file_name chosen) \<longrightarrow>
      handleFileChange (Some chosen) c = c\<lparr>descriptionFile := Some chosen\<rparr>)"
proof (intro conjI impI)
  show "isValid (file_name chosen) = (\<exists>stem. file_name chosen = stem @ ''.txt'' \<or> file_name chosen = stem @ ''.md'')"
    unfolding isValid_def endsWith_iff by blast
next
  assume "\<not> isValid (file_name chosen)"
  then show "network_d (handleUploadDescription fetch handleUpload handleResponse offerId (Some chosen) st)
        = network_d st"
    by (rule handleUploadDescription_rejects)
next
  assume "\<not> isValid (file_name chosen)"
  then show "handleFileChange (Some chosen) c
        = c\<lparr>toasts_c := toasts_c c @ [ToastError ''Dozwolone formaty: .txt, .md'']\<rparr>"
    by (simp add: handleFileChange_def)
next
  assume "\<not> isValid (file_name chosen) \<and> offer_d st = Some current"
  then show "handleUploadDescription fetch handleUpload handleResponse offerId (Some chosen) st
        = st\<lparr>toasts_d := toasts_d st @ [ToastError ''Dozwolone formaty: .txt, .md'']\<rparr>"
    by (simp add: handleUploadDescription_rejects_toast)
next
  assume "isValid (file_name chosen) \<and> offer_d st = Some current"
  then show "\<exists>rest. network_d (handleUploadDescription fetch handleUpload handleResponse offerId (Some chosen) st)
                = network_d st @ [uploadRequest (offer_id current) chosen] @ rest"
    by (blast intro: handleUploadDescription_uploads)
next
  assume "isValid (file_name chosen)"
  then show "handleFileChange (Some chosen) c = c\<lparr>descriptionFile := Some chosen\<rparr>"
    by (simp add: handleFileChange_def)
qed

lemma isValid_descMd: "isValid (file_name descMd)"
  by (simp add: isValid_def endsWith_def descMd_def)

lemma not_isValid_descPdf: "\<not> isValid (file_name descPdf)"
  by (simp add: isValid_def endsWith_def descPdf_def)

text \<open>The theorem at \<open>desc.pdf\<close> (rejected by both handlers, no request) and at
  \<open>desc.md\<close> (uploaded by the detail page, stored by the creation page).\<close>

theorem upload_handlers_validate_name_witness:
  "network_d (handleUploadDescription offlineNetwork (throwingHandler :: response \<Rightarrow> string \<Rightarrow> thrown + unit)
       throwingHandler ''o1'' (Some descPdf) loadedDetailPage) = [] \<and>
   toasts_c (handleFileChange (Some descPdf) blankCreatePage) = [ToastError ''Dozwolone formaty: .txt, .md''] \<and>
   (\<exists>rest. network_d (handleUploadDescription offlineNetwork (throwingHandler :: response \<Rightarrow> string \<Rightarrow> thrown + unit)
       throwingHandler ''o1'' (Some descMd) loadedDetailPage) = [uploadRequest ''o1'' descMd] @ rest) \<and>
   descriptionFile (handleFileChange (Some descMd) blankCreatePage) = Some descMd"
proof -
  have loaded: "offer_d loadedDetailPage = Some acme"
    by (simp add: loadedDetailPage_def)
  note pdf = upload_handlers_validate_name [where chosen = descPdf and fetch = offlineNetwork
      and handleUpload = "throwingHandler :: response \<Rightarrow> string \<Rightarrow> thrown + unit"
      and handleResponse = throwingHandler and offerId = "''o1''" and st = loadedDetailPage
      and c = blankCreatePage and current = acme]
  note md = upload_handlers_validate_name [where chosen = descMd and fetch = offlineNetwork
      and handleUpload = "throwingHandler :: response \<Rightarrow> string \<Rightarrow> thrown + unit"
      and handleResponse = throwingHandler and offerId = "''o1''" and st = loadedDetailPage
      and c = blankCreatePage and current = acme]
  from pdf not_isValid_descPdf
  have a: "network_d (handleUploadDescription offlineNetwork (throwingHandler :: response \<Rightarrow> string \<Rightarrow> thrown + unit)
       throwingHandler ''o1'' (Some descPdf) loadedDetailPage) = []"
    and b: "toasts_c (handleFileChange (Some descPdf) blankCreatePage) = [ToastError ''Dozwolone formaty: .txt, .md'']"
    by (simp_all add: loadedDetailPage_def blankCreatePage_def)
  from md isValid_descMd loaded
  have c: "\<exists>rest. network_d (handleUploadDescription offlineNetwork (throwingHandler :: response \<Rightarrow> string \<Rightarrow> thrown + unit)
       throwingHandler ''o1'' (Some descMd) loadedDetailPage) = [uploadRequest ''o1'' descMd] @ rest"
    and d: "descriptionFile (handleFileChange (Some descMd) blankCreatePage) = Some descMd"
    by (simp_all add: loadedDetailPage_def acme_def)
  from a b c d show ?thesis by blast
qed

text \<open>The claim as written (both handlers proceed to the upload request for a valid
  name) fails for \<open>handleFileChange\<close>: it accepts \<open>desc.md\<close>, stores it, and sends no
  request.\<close>

theorem handleFileChange_no_upload_counterexample:
  "isValid (file_name descMd) \<and>
   handleFileChange (Some descMd) blankCreatePage = blankCreatePage\<lparr>descriptionFile := Some descMd\<rparr> \<and>
   network_c (handleFileChange (Some descMd) blankCreatePage) = []"
  by (simp add: handleFileChange_def isValid_descMd blankCreatePage_def)

section \<open>Properties of the generation pipeline\<close>

lemma service_generatePdf_error_keeps_store:
  "fst (service_generatePdf env store offerId) = Inl e \<Longrightarrow>
   snd (service_generatePdf env store offerId) = store"
  by (auto simp: service_generatePdf_def Let_def split: option.splits)

lemma handleGeneratePdf_failure:
  assumes "offer_d st = Some current"
    and "fst (generatePdf fetch handleResponse (offer_id current) (network_d st)) = Inl err"
  shows "offer_d (handleGeneratePdf fetch handleResponse st) = offer_d st \<and>
         toasts_d (handleGeneratePdf fetch handleResponse st) =
           toasts_d st @ [ToastError (case err of ErrorObj m \<Rightarrow> m
                                      | OtherThrown \<Rightarrow> ''Nie udalo sie wygenerowac PDF'')] \<and>
         isGenerating (handleGeneratePdf fetch handleResponse st) = False"
  using assms
  by (cases "generatePdf fetch handleResponse (offer_id current) (network_d st)")
     (simp add: handleGeneratePdf_def Let_def)

text \<open>
  Claim C1. For an offer whose \<open>description_file_path\<close> is unset, the service's
  \<open>generatePdf\<close> fails with \<open>PreconditionFailed\<close> and leaves the store as it was, and the
  detail page disables the generate button. Whenever \<open>generatePdf\<close> fails, the store
  after the call is the store before it; in particular a failure of step 1, 2, 3 or 4 is
  reported as the failure of that step. On the client, when the call fails, the offer
  the page holds is the one it held before, and the error is shown as a toast.
\<close>

theorem generatePdf_failure_changes_nothing:
  "(store offerId = Some current \<and> description_file_path current = None \<longrightarrow>
      service_generatePdf env store offerId = (Inl PreconditionFailed, store) \<and>
      generateDisabled st current) \<and>
   (\<forall>e. fst (service_generatePdf env store offerId) = Inl e \<longrightarrow>
      snd (service_generatePdf env store offerId) = store) \<and>
   (store offerId = Some current \<and> description_file_path current = Some path \<longrightarrow>
      (readDescription env path = None \<longrightarrow>
         fst (service_generatePdf env store offerId) = Inl (StepFailed ReadFile)) \<and>
      (\<forall>d. readDescription env path = Some d \<and> callAiService env current d = None \<longrightarrow>
         fst (service_generatePdf env store offerId) = Inl (StepFailed CallAi)) \<and>
      (\<forall>d f. readDescription env path = Some d \<and> callAiService env current d = Some f \<and>
         injectTemplate env current f = None \<longrightarrow>
         fst (service_generatePdf env store offerId) = Inl (StepFailed InjectTemplate)) \<and>
      (\<forall>d f h. readDescription env path = Some d \<and> callAiService env current d = Some f \<and>
         injectTemplate env current f = Some h \<and> renderPdf env h = None \<longrightarrow>
         fst (service_generatePdf env store offerId) = Inl (StepFailed RenderPdf))) \<and>
   (offer_d st = Some current \<and>
    fst (generatePdf fetch handleResponse (offer_id current) (network_d st)) = Inl err \<longrightarrow>
      offer_d (handleGeneratePdf fetch handleResponse st) = offer_d st \<and>
      toasts_d (handleGeneratePdf fetch handleResponse st) =
        toasts_d st @ [ToastError (case err of ErrorObj m \<Rightarrow> m
                                   | OtherThrown \<Rightarrow> ''Nie udalo sie wygenerowac PDF'')])"
proof (intro conjI impI allI)
  assume "store offerId = Some current \<and> description_file_path current = None"
  then show "service_generatePdf env store offerId = (Inl PreconditionFailed, store)"
    by (simp add: service_generatePdf_def)
next
  assume "store offerId = Some current \<and> description_file_path current = None"
  then show "generateDisabled st current"
    by (simp add: generateDisabled_def)
next
  fix e
  assume "fst (service_generatePdf env store offerId) = Inl e"
  then show "snd (service_generatePdf env store offerId) = store"
    by (rule service_generatePdf_error_keeps_store)
next
  assume "store offerId = Some current \<and> description_file_path current = Some path"
    and "readDescription env path = None"
  then show "fst (service_generatePdf env store offerId) = Inl (StepFailed ReadFile)"
    by (simp add: service_generatePdf_def)
next
  fix d
  assume "store offerId = Some current \<and> description_file_path current = Some path"
    and "readDescription env path = Some d \<and> callAiService env current d = None"
  then show "fst (service_generatePdf env store offerId) = Inl (StepFailed CallAi)"
    by (simp add: service_generatePdf_def)
next
  fix d f
  assume "store offerId = Some current \<and> description_file_path current = Some path"
    and "readDescription env path = Some d \<and> callAiService env current d = Some f \<and>
         injectTemplate env current f = None"
  then show "fst (service_generatePdf env store offerId) = Inl (StepFailed InjectTemplate)"
    by (simp add: service_generatePdf_def)
next
  fix d f h
  assume "store offerId = Some current \<and> description_file_path current = Some path"
    and "readDescription env path = Some d \<and> callAiService env current d = Some f \<and>
         injectTemplate env current f = Some h \<and> renderPdf env h = None"
  then show "fst (service_generatePdf env store offerId) = Inl (StepFailed RenderPdf)"
    by (simp add: service_generatePdf_def)
next
  assume a: "offer_d st = Some current \<and>
    fst (generatePdf fetch handleResponse (offer_id current) (network_d st)) = Inl err"
  then show "offer_d (handleGeneratePdf fetch handleResponse st) = offer_d st"
    using handleGeneratePdf_failure by blast
  from a show "toasts_d (handleGeneratePdf fetch handleResponse st) =
        toasts_d st @ [ToastError (case err of ErrorObj m \<Rightarrow> m
                                   | OtherThrown \<Rightarrow> ''Nie udalo sie wygenerowac PDF'')]"
    using handleGeneratePdf_failure by blast
qed

lemma describedOffer_stored:
  "storeOf describedOffer ''o1'' = Some describedOffer \<and>
   description_file_path describedOffer = Some ''/uploads/offers/offer_o1.txt''"
  by (simp add: storeOf_def describedOffer_def acme_def)

text \<open>The theorem at concrete inputs: \<open>acme\<close> without a description is refused and its
  button is disabled; with a description, each of the four steps failing in turn is
  reported and leaves the store as it was; and with the network down the page keeps
  showing \<open>acme\<close>.\<close>

theorem generatePdf_failure_changes_nothing_witness:
  "service_generatePdf working (storeOf acme) ''o1'' = (Inl PreconditionFailed, storeOf acme) \<and>
   generateDisabled loadedDetailPage acme \<and>
   service_generatePdf fileMissing (storeOf describedOffer) ''o1''
     = (Inl (StepFailed ReadFile), storeOf describedOffer) \<and>
   service_generatePdf aiDown (storeOf describedOffer) ''o1''
     = (Inl (StepFailed CallAi), storeOf describedOffer) \<and>
   service_generatePdf templateBroken (storeOf describedOffer) ''o1''
     = (Inl (StepFailed InjectTemplate), storeOf describedOffer) \<and>
   service_generatePdf rendererDown (storeOf describedOffer) ''o1''
     = (Inl (StepFailed RenderPdf), storeOf describedOffer) \<and>
   offer_d (handleGeneratePdf offlineNetwork throwingHandler loadedDetailPage) = Some acme"
proof -
  note at_acme = generatePdf_failure_changes_nothing [where store = "storeOf acme"
      and offerId = "''o1''" and current = acme and env = working and st = loadedDetailPage
      and fetch = offlineNetwork and handleResponse = throwingHandler
      and err = "ErrorObj ''Failed to fetch''"]
  note at_described = generatePdf_failure_changes_nothing [where store = "storeOf describedOffer"
      and offerId = "''o1''" and current = describedOffer
      and path = "''/uploads/offers/offer_o1.txt''"]
  have unset: "storeOf acme ''o1'' = Some acme \<and> description_file_path acme = None"
    by (simp add: storeOf_def acme_def)
  have offline: "offer_d loadedDetailPage = Some acme \<and>
      fst (generatePdf offlineNetwork throwingHandler (offer_id acme) (network_d loadedDetailPage))
        = Inl (ErrorObj ''Failed to fetch'')"
    by (simp add: loadedDetailPage_def generatePdf_def doFetch_def tryCatch_def offlineNetwork_def)
  from at_acme unset offline
  have a: "service_generatePdf working (storeOf acme) ''o1'' = (Inl PreconditionFailed, storeOf acme)"
    and b: "generateDisabled loadedDetailPage acme"
    and g: "offer_d (handleGeneratePdf offlineNetwork throwingHandler loadedDetailPage) = Some acme"
    by simp_all
  have s1: "readDescription fileMissing ''/uploads/offers/offer_o1.txt'' = None"
    by (simp add: fileMissing_def working_def)
  have s2: "readDescription aiDown ''/uploads/offers/offer_o1.txt'' = Some ''A short description.'' \<and>
      callAiService aiDown describedOffer ''A short description.'' = None"
    by (simp add: aiDown_def working_def)
  have s3: "readDescription templateBroken ''/uploads/offers/offer_o1.txt'' = Some ''A short description.'' \<and>
      callAiService templateBroken describedOffer ''A short description.'' = Some ''<h2>Zakres</h2>'' \<and>
      injectTemplate templateBroken describedOffer ''<h2>Zakres</h2>'' = None"
    by (simp add: templateBroken_def working_def)
  have s4: "readDescription rendererDown ''/uploads/offers/offer_o1.txt'' = Some ''A short description.'' \<and>
      callAiService rendererDown describedOffer ''A short description.'' = Some ''<h2>Zakres</h2>'' \<and>
      injectTemplate rendererDown describedOffer ''<h2>Zakres</h2>''
        = Some ''<html><h2>Zakres</h2></html>'' \<and>
      renderPdf rendererDown ''<html><h2>Zakres</h2></html>'' = None"
    by (simp add: rendererDown_def working_def)
  from at_described [where env = fileMissing] describedOffer_stored s1
  have c1: "fst (service_generatePdf fileMissing (storeOf describedOffer) ''o1'') = Inl (StepFailed ReadFile)"
    by blast
  with at_described [where env = fileMissing]
  have c: "service_generatePdf fileMissing (storeOf describedOffer) ''o1''
     = (Inl (StepFailed ReadFile), storeOf describedOffer)"
    by (simp add: prod_eq_iff)
  from at_described [where env = aiDown] describedOffer_stored s2
  have d1: "fst (service_generatePdf aiDown (storeOf describedOffer) ''o1'') = Inl (StepFailed CallAi)"
    by blast
  with at_described [where env = aiDown]
  have d: "service_generatePdf aiDown (storeOf describedOffer) ''o1''
     = (Inl (StepFailed CallAi), storeOf describedOffer)"
    by (simp add: prod_eq_iff)
  from at_described [where env = templateBroken] describedOffer_stored s3
  have e1: "fst (service_generatePdf templateBroken (storeOf describedOffer) ''o1'')
              = Inl (StepFailed InjectTemplate)"
    by blast
  with at_described [where env = templateBroken]
  have e: "service_generatePdf templateBroken (storeOf describedOffer) ''o1''
     = (Inl (StepFailed InjectTemplate), storeOf describedOffer)"
    by (simp add: prod_eq_iff)
  from at_described [where env = rendererDown] describedOffer_stored s4
  have f1: "fst (service_generatePdf rendererDown (storeOf describedOffer) ''o1'')
              = Inl (StepFailed RenderPdf)"
    by blast
  with at_described [where env = rendererDown]
  have f: "service_generatePdf rendererDown (storeOf describedOffer) ''o1''
     = (Inl (StepFailed RenderPdf), storeOf describedOffer)"
    by (simp add: prod_eq_iff)
  from a b c d e f g show ?thesis by blast
qed

section \<open>Properties of the status workflow\<close>













section \<open>Properties of the CRM push\<close>

lemma service_sendToCrm_success:
  "fst (service_sendToCrm createOpportunity store offerId estimate) = Inr updated \<Longrightarrow>
   \<exists>current. store offerId = Some current \<and> status current = ''generated'' \<and>
     document_path current \<noteq> None \<and> raynet_company_id current \<noteq> None"
  by (auto simp: service_sendToCrm_def Let_def split: option.splits if_splits)

lemma handleSendToCrm_failure:
  assumes "offer_d st = Some current"
    and "sendToCrm (offer_id current)
           (if estimatedValue st \<noteq> [] then Some (parseFloat (estimatedValue st)) else None) = Inl err"
  shows "offer_d (handleSendToCrm sendToCrm parseFloat st) = offer_d st \<and>
         toasts_d (handleSendToCrm sendToCrm parseFloat st) =
           toasts_d st @ [ToastError (case err of ErrorObj m \<Rightarrow> m
                                      | OtherThrown \<Rightarrow> ''Nie udalo sie wyslac do CRM'')]"
  using assms by (cases "estimatedValue st = []") (simp_all add: handleSendToCrm_def Let_def)

text \<open>
  Claim C4, as the service is specified and the page implements it. \<open>sendToCrm\<close>
  succeeds only for a stored offer whose status is \<open>generated\<close>, whose \<open>document_path\<close> is
  set and which has a linked CRM company id; when one of the three is violated it fails
  with \<open>PreconditionFailed\<close> and leaves the store unchanged. The page shows a failed call
  as an error toast and keeps the offer it held. The gate \<open>canSendToCrm\<close> is the
  conjunction of: the status is \<open>generated\<close>, \<open>document_path\<close> is a non-empty string, and
  \<open>raynet_company_id\<close> is a non-empty string.
\<close>

theorem sendToCrm_preconditions_and_gate:
  "(\<forall>updated. fst (service_sendToCrm createOpportunity store offerId estimate) = Inr updated \<longrightarrow>
      (\<exists>current. store offerId = Some current \<and> status current = ''generated'' \<and>
         document_path current \<noteq> None \<and> raynet_company_id current \<noteq> None)) \<and>
   (store offerId = Some current \<and>
    (status current \<noteq> ''generated'' \<or> document_path current = None \<or>
     raynet_company_id current = None) \<longrightarrow>
      service_sendToCrm createOpportunity store offerId estimate = (Inl PreconditionFailed, store)) \<and>
   canSendToCrm shown =
     (status shown = ''generated'' \<and>
      (\<exists>p. document_path shown = Some p \<and> p \<noteq> []) \<and>
      (\<exists>c. raynet_company_id shown = Some c \<and> c \<noteq> [])) \<and>
   (offer_d st = Some shown \<and>
    sendToCrm (offer_id shown)
      (if estimatedValue st \<noteq> [] then Some (parseFloat (estimatedValue st)) else None) = Inl err \<longrightarrow>
      offer_d (handleSendToCrm sendToCrm parseFloat st) = offer_d st \<and>
      toasts_d (handleSendToCrm sendToCrm parseFloat st) =
        toasts_d st @ [ToastError (case err of ErrorObj m \<Rightarrow> m
                                   | OtherThrown \<Rightarrow> ''Nie udalo sie wyslac do CRM'')])"
proof (intro conjI impI allI)
  fix updated
  assume "fst (service_sendToCrm createOpportunity store offerId estimate) = Inr updated"
  then show "\<exists>current. store offerId = Some current \<and> status current = ''generated'' \<and>
         document_path current \<noteq> None \<and> raynet_company_id current \<noteq> None"
    by (rule service_sendToCrm_success)
next
  assume "store offerId = Some current \<and>
    (status current \<noteq> ''generated'' \<or> document_path current = None \<or>
     raynet_company_id current = None)"
  then show "service_sendToCrm createOpportunity store offerId estimate = (Inl PreconditionFailed, store)"
    by (auto simp: service_sendToCrm_def)
next
  show "canSendToCrm shown =
     (status shown = ''generated'' \<and>
      (\<exists>p. document_path shown = Some p \<and> p \<noteq> []) \<and>
      (\<exists>c. raynet_company_id shown = Some c \<and> c \<noteq> []))"
    by (cases "document_path shown"; cases "raynet_company_id shown") (simp_all add: canSendToCrm_def)
next
  assume a: "offer_d st = Some shown \<and>
    sendToCrm (offer_id shown)
      (if estimatedValue st \<noteq> [] then Some (parseFloat (estimatedValue st)) else None) = Inl err"
  then show "offer_d (handleSendToCrm sendToCrm parseFloat st) = offer_d st"
    using handleSendToCrm_failure [of st shown sendToCrm parseFloat err] by blast
  from a show "toasts_d (handleSendToCrm sendToCrm parseFloat st) =
        toasts_d st @ [ToastError (case err of ErrorObj m \<Rightarrow> m
                                   | OtherThrown \<Rightarrow> ''Nie udalo sie wyslac do CRM'')]"
    using handleSendToCrm_failure [of st shown sendToCrm parseFloat err] by blast
qed

text \<open>The theorem at concrete inputs: the draft \<open>acme\<close> is refused with
  \<open>PreconditionFailed\<close>; the generated offer with a linked company is pushed, and the
  preconditions held for it; the gate is open for it and closed for the draft; and a
  rejected call shows the service's message.\<close>

theorem sendToCrm_preconditions_and_gate_witness:
  "service_sendToCrm crmUp (storeOf acme) ''o1'' None = (Inl PreconditionFailed, storeOf acme) \<and>
   fst (service_sendToCrm crmUp (storeOf generatedOffer) ''o1'' None) = Inr pushedOffer \<and>
   (\<exists>current. storeOf generatedOffer ''o1'' = Some current \<and> status current = ''generated'' \<and>
      document_path current \<noteq> None \<and> raynet_company_id current \<noteq> None) \<and>
   canSendToCrm generatedOffer \<and> \<not> canSendToCrm acme \<and>
   toasts_d (handleSendToCrm rejectingSendToCrm (\<lambda>s. length s) loadedDetailPage)
     = [ToastError ''Offer has no linked CRM company'']"
proof -
  note inst = sendToCrm_preconditions_and_gate [where store = "storeOf acme" and offerId = "''o1''"
      and current = acme and createOpportunity = crmUp and estimate = None
      and st = loadedDetailPage and sendToCrm = rejectingSendToCrm and parseFloat = "\<lambda>s. length s"
      and err = "ErrorObj ''Offer has no linked CRM company''"]
  have pre: "storeOf acme ''o1'' = Some acme \<and>
      (status acme \<noteq> ''generated'' \<or> document_path acme = None \<or> raynet_company_id acme = None)"
    by (simp add: storeOf_def acme_def)
  have rej: "offer_d loadedDetailPage = Some acme \<and>
      rejectingSendToCrm (offer_id acme)
        (if estimatedValue loadedDetailPage \<noteq> []
         then Some ((\<lambda>s. length s) (estimatedValue loadedDetailPage)) else None)
        = Inl (ErrorObj ''Offer has no linked CRM company'')"
    by (simp add: loadedDetailPage_def rejectingSendToCrm_def)
  from inst [where shown = acme] pre rej
  have a: "service_sendToCrm crmUp (storeOf acme) ''o1'' None = (Inl PreconditionFailed, storeOf acme)"
    and f: "toasts_d (handleSendToCrm rejectingSendToCrm (\<lambda>s. length s) loadedDetailPage)
               = [ToastError ''Offer has no linked CRM company'']"
    by (simp_all add: loadedDetailPage_def)
  have b: "fst (service_sendToCrm crmUp (storeOf generatedOffer) ''o1'' None) = Inr pushedOffer"
    by (simp add: service_sendToCrm_def Let_def crmUp_def storeOf_def pushedOffer_def
        generatedOffer_def describedOffer_def acme_def)
  with sendToCrm_preconditions_and_gate [where store = "storeOf generatedOffer"
      and offerId = "''o1''" and createOpportunity = crmUp and estimate = None]
  have c: "\<exists>current. storeOf generatedOffer ''o1'' = Some current \<and> status current = ''generated'' \<and>
      document_path current \<noteq> None \<and> raynet_company_id current \<noteq> None"
    by blast
  from inst [where shown = generatedOffer]
  have d: "canSendToCrm generatedOffer"
    by (simp add: generatedOffer_def describedOffer_def acme_def)
  from inst [where shown = acme]
  have e: "\<not> canSendToCrm acme"
    by (simp add: acme_def)
  from a b c d e f show ?thesis by blast
qed

text \<open>The claim as written (the gate is the conjunction of status \<open>generated\<close>, a non-null
  \<open>document_path\<close> and a linked company id) fails for an empty string: the offer below
  is generated, its \<open>document_path\<close> is the empty string and not \<open>null\<close>, its company id
  is set, and the gate is closed, because \<open>&&\<close> reads the empty string as false.\<close>

theorem canSendToCrm_empty_path_counterexample:
  "status emptyPathOffer = ''generated'' \<and> document_path emptyPathOffer \<noteq> None \<and>
   raynet_company_id emptyPathOffer \<noteq> None \<and> \<not> canSendToCrm emptyPathOffer"
  by (simp add: canSendToCrm_def emptyPathOffer_def generatedOffer_def describedOffer_def acme_def)

end
